theory Spec2Isabelle
  imports Main "HOL-Library.Multiset"
begin

section \<open>Errors and panics\<close>

text \<open>
  Go's \<open>error\<close> values are built with \<open>fmt.Errorf\<close>; every message of the modelled
  functions is a constructor, a wrapped cause (\<open>%v\<close>) is an argument. \<open>ErrMsg\<close> is an
  error created anywhere else. A Go panic ends the call: a function that can panic
  returns \<open>panic + 'a\<close>, with \<open>Inl\<close> the panic.
\<close>

datatype join_side = LeftDataFrame | RightDataFrame

datatype error =
    ErrMsg string
  | ConcatArgumentHasErrors error
  | SetArgumentHasErrors error
  | IndexDimensionsMismatch
  | IndexNewValuesHasErrors error
  | IndexesContainNaN
  | UnknownIndexingMode
  | SetDimensionsMismatch
  | SetIndexOutOfRange
  | SliceIndexOutOfBounds
  | CouldntDetectType
  | EmptyDataFrame
  | NoSeriesGiven
  | ErrorOnSeries int error
  | DifferentDimensions
  | MutateWrongDimensions
  | FilterCantFindColumnName
  | FilterError error
  | JoinKeysNotSpecified
  | JoinCantFindKeys "(string \<times> join_side) list"

datatype panic =
    IndexOutOfRange
  | InterfaceConversion
  | NilDereference
  | PanicMsg string
  | PanicAggregation int

section \<open>Elements (series/gota\_element.go)\<close>

text \<open>\<open>ElementValue[T]\<close>: a value and the missing flag.\<close>

record 'a ElementValue =
  value_ev :: 'a
  nan_ev :: bool

definition ElementValue_Val :: "'a ElementValue \<Rightarrow> 'a" where
  "ElementValue_Val ev = value_ev ev"

definition ElementValue_IsNA :: "'a ElementValue \<Rightarrow> bool" where
  "ElementValue_IsNA ev = nan_ev ev"

definition ElementValue_Set :: "'a ElementValue \<Rightarrow> 'a \<Rightarrow> 'a ElementValue" where
  "ElementValue_Set ev item = ev\<lparr>value_ev := item\<rparr>"

definition ElementValue_Eq :: "'a ElementValue \<Rightarrow> 'a ElementValue \<Rightarrow> bool" where
  "ElementValue_Eq ev other \<longleftrightarrow>
     nan_ev ev = ElementValue_IsNA other \<and> value_ev ev = ElementValue_Val other"

definition ElementValue_Neq :: "'a ElementValue \<Rightarrow> 'a ElementValue \<Rightarrow> bool" where
  "ElementValue_Neq ev other \<longleftrightarrow>
     nan_ev ev \<noteq> ElementValue_IsNA other \<or> value_ev ev \<noteq> ElementValue_Val other"

definition ElementValue_Less :: "'a::linorder ElementValue \<Rightarrow> 'a ElementValue \<Rightarrow> bool" where
  "ElementValue_Less ev other \<longleftrightarrow> value_ev ev < ElementValue_Val other"

definition ElementValue_LessEq :: "'a::linorder ElementValue \<Rightarrow> 'a ElementValue \<Rightarrow> bool" where
  "ElementValue_LessEq ev other \<longleftrightarrow> ElementValue_Val ev \<le> ElementValue_Val other"

definition ElementValue_Greater :: "'a::linorder ElementValue \<Rightarrow> 'a ElementValue \<Rightarrow> bool" where
  "ElementValue_Greater ev other \<longleftrightarrow> ElementValue_Val ev > ElementValue_Val other"

definition ElementValue_GreaterEq :: "'a::linorder ElementValue \<Rightarrow> 'a ElementValue \<Rightarrow> bool" where
  "ElementValue_GreaterEq ev other \<longleftrightarrow> ElementValue_Val ev \<ge> ElementValue_Val other"

definition ElementValue_Copy :: "'a ElementValue \<Rightarrow> 'a ElementValue" where
  "ElementValue_Copy ev = \<lparr>value_ev = value_ev ev, nan_ev = nan_ev ev\<rparr>"

definition NewElement :: "'a \<Rightarrow> 'a ElementValue" where
  "NewElement t = \<lparr>value_ev = t, nan_ev = False\<rparr>"

text \<open>\<open>BoolElementValue\<close>: the Boolean element, with its own methods.\<close>

record BoolElementValue =
  value_b :: bool
  nan_b :: bool

definition BoolElementValue_Val :: "BoolElementValue \<Rightarrow> bool" where
  "BoolElementValue_Val b = value_b b"

definition BoolElementValue_IsNA :: "BoolElementValue \<Rightarrow> bool" where
  "BoolElementValue_IsNA b = nan_b b"

definition BoolElementValue_Set :: "BoolElementValue \<Rightarrow> bool \<Rightarrow> BoolElementValue" where
  "BoolElementValue_Set b other = b\<lparr>value_b := other, nan_b := False\<rparr>"

definition BoolElementValue_Eq :: "BoolElementValue \<Rightarrow> BoolElementValue \<Rightarrow> bool" where
  "BoolElementValue_Eq b be \<longleftrightarrow> value_b b = BoolElementValue_Val be"

definition BoolElementValue_Neq :: "BoolElementValue \<Rightarrow> BoolElementValue \<Rightarrow> bool" where
  "BoolElementValue_Neq b be \<longleftrightarrow> value_b b \<noteq> BoolElementValue_Val be"

definition NewBoolElement :: "bool \<Rightarrow> BoolElementValue" where
  "NewBoolElement b = \<lparr>value_b = b, nan_b = False\<rparr>"

section \<open>Element arrays\<close>

text \<open>
  \<open>ElementsArray[T]\<close> keeps a slice of elements and its length \<open>len\<close>. \<open>NewElements\<close>
  sets \<open>len\<close> to the length of the slice and \<open>AppendElements\<close> adds the length of what
  it appends, so \<open>len\<close> is always the length of the slice: the model is the list, and
  \<open>Len\<close> is its length as a Go \<open>int\<close>. \<open>Elem\<close> indexes the slice; out of range Go
  panics.
\<close>

definition NewElements :: "'a list \<Rightarrow> 'a ElementValue list" where
  "NewElements values = map NewElement values"

definition ElementsArray_Len :: "'a ElementValue list \<Rightarrow> int" where
  "ElementsArray_Len ea = int (length ea)"

definition ElementsArray_Elem :: "'a ElementValue list \<Rightarrow> int \<Rightarrow> panic + 'a ElementValue" where
  "ElementsArray_Elem ea i =
     (if 0 \<le> i \<and> i < ElementsArray_Len ea then Inr (ea ! nat i) else Inl IndexOutOfRange)"

definition ElementsArray_AppendElements ::
  "'a ElementValue list \<Rightarrow> 'a ElementValue list \<Rightarrow> 'a ElementValue list" where
  "ElementsArray_AppendElements ea other = ea @ other"

section \<open>Series\<close>

record 'a GotaSeries =
  Name :: string
  elements :: "'a ElementValue list"
  Err :: "error option"

definition NewSeries :: "string \<Rightarrow> 'a list \<Rightarrow> 'a GotaSeries" where
  "NewSeries name values = \<lparr>Name = name, elements = NewElements values, Err = None\<rparr>"

definition GotaSeries_Empty :: "'a GotaSeries \<Rightarrow> 'a GotaSeries" where
  "GotaSeries_Empty s = NewSeries (Name s) []"

definition GotaSeries_Len :: "'a GotaSeries \<Rightarrow> int" where
  "GotaSeries_Len s = ElementsArray_Len (elements s)"

definition GotaSeries_Append :: "'a GotaSeries \<Rightarrow> 'a list \<Rightarrow> 'a GotaSeries" where
  "GotaSeries_Append s values =
     (if Err s \<noteq> None then s
      else s\<lparr>elements := ElementsArray_AppendElements (elements s) (NewElements values)\<rparr>)"

definition GotaSeries_HasNaN :: "'a GotaSeries \<Rightarrow> bool" where
  "GotaSeries_HasNaN s = list_ex ElementValue_IsNA (elements s)"

definition GotaSeries_IsNaN :: "'a GotaSeries \<Rightarrow> bool list" where
  "GotaSeries_IsNaN s = map ElementValue_IsNA (elements s)"

text \<open>
  \<open>Copy\<close> makes a series with the same name and error over a fresh array holding
  the same elements.
\<close>

definition GotaSeries_Copy :: "'a GotaSeries \<Rightarrow> 'a GotaSeries" where
  "GotaSeries_Copy s =
     \<lparr>Name = Name s, elements = map ElementValue_Copy (elements s), Err = Err s\<rparr>"

text \<open>
  The selectors \<open>parseIndexes\<close> switches on. For an integer series it returns the
  values (\<open>s.Int()\<close>) after the error and missing-value checks; the case of a Boolean
  series has an empty body, which leaves the index list empty.
\<close>

datatype Indexes =
    IdxInts "int list"
  | IdxInt int
  | IdxBools "bool list"
  | IdxSeriesInt "int GotaSeries"
  | IdxSeriesBool
  | IdxOther

fun true_positions :: "int \<Rightarrow> bool list \<Rightarrow> int list" where
  "true_positions i [] = []"
| "true_positions i (b # bools) =
     (if b then i # true_positions (i + 1) bools else true_positions (i + 1) bools)"

fun parseIndexes :: "int \<Rightarrow> Indexes \<Rightarrow> error + int list" where
  "parseIndexes l (IdxInts idxs) = Inr idxs"
| "parseIndexes l (IdxInt idxs) = Inr [idxs]"
| "parseIndexes l (IdxBools bools) =
     (if int (length bools) \<noteq> l then Inl IndexDimensionsMismatch
      else Inr (true_positions 0 bools))"
| "parseIndexes l (IdxSeriesInt s) =
     (case Err s of
        Some err \<Rightarrow> Inl (IndexNewValuesHasErrors err)
      | None \<Rightarrow>
          if GotaSeries_HasNaN s then Inl IndexesContainNaN
          else Inr (map ElementValue_Val (elements s)))"
| "parseIndexes l IdxSeriesBool = Inr []"
| "parseIndexes l IdxOther = Inl UnknownIndexingMode"

text \<open>The loop of \<open>Subset\<close>: the value at each index; an index out of range panics.\<close>

fun Subset_values :: "'a ElementValue list \<Rightarrow> int list \<Rightarrow> panic + 'a list" where
  "Subset_values ea [] = Inr []"
| "Subset_values ea (index # idx) =
     (case ElementsArray_Elem ea index of
        Inl p \<Rightarrow> Inl p
      | Inr e \<Rightarrow>
          (case Subset_values ea idx of
             Inl p \<Rightarrow> Inl p
           | Inr new_t \<Rightarrow> Inr (ElementValue_Val e # new_t)))"

definition GotaSeries_Subset :: "'a GotaSeries \<Rightarrow> Indexes \<Rightarrow> panic + 'a GotaSeries" where
  "GotaSeries_Subset s indexes =
     (if Err s \<noteq> None then Inr s
      else case parseIndexes (GotaSeries_Len s) indexes of
        Inl err \<Rightarrow> Inr (s\<lparr>Err := Some err\<rparr>)
      | Inr idx \<Rightarrow>
          (case Subset_values (elements s) idx of
             Inl p \<Rightarrow> Inl p
           | Inr new_t \<Rightarrow> Inr \<lparr>Name = Name s, elements = NewElements new_t, Err = None\<rparr>))"

text \<open>
  \<open>Set\<close> changes the series in place and returns it: the result is the series after
  the call. The loop stops at the first index out of range, keeping what it has
  written. \<open>newvalues\<close> is a series other than the receiver; its length was compared
  with the number of indexes before the loop.
\<close>

fun Set_loop :: "'a GotaSeries \<Rightarrow> int list \<Rightarrow> 'a list \<Rightarrow> 'a GotaSeries" where
  "Set_loop s (i # idx) (v # vs) =
     (if i < 0 \<or> i \<ge> GotaSeries_Len s then s\<lparr>Err := Some SetIndexOutOfRange\<rparr>
      else Set_loop
             (s\<lparr>elements := (elements s)[nat i := ElementValue_Set (elements s ! nat i) v]\<rparr>)
             idx vs)"
| "Set_loop s idx vs = s"

definition GotaSeries_Set :: "'a GotaSeries \<Rightarrow> Indexes \<Rightarrow> 'a GotaSeries \<Rightarrow> 'a GotaSeries" where
  "GotaSeries_Set s indexes newvalues =
     (if Err s \<noteq> None then s
      else case Err newvalues of
        Some err \<Rightarrow> s\<lparr>Err := Some (SetArgumentHasErrors err)\<rparr>
      | None \<Rightarrow>
          (case parseIndexes (GotaSeries_Len s) indexes of
             Inl err \<Rightarrow> s\<lparr>Err := Some err\<rparr>
           | Inr idx \<Rightarrow>
               if int (length idx) \<noteq> GotaSeries_Len newvalues
               then s\<lparr>Err := Some SetDimensionsMismatch\<rparr>
               else Set_loop s idx (map ElementValue_Val (elements newvalues))))"

text \<open>\<open>Slice\<close>: the indexes \<open>j, j+1, ..\<close> below \<open>k\<close>, handed to \<open>Subset\<close>.\<close>

definition Slice_idxs :: "int \<Rightarrow> int \<Rightarrow> int list" where
  "Slice_idxs j k = map (\<lambda>i. j + int i) [0..<nat (k - j)]"

definition GotaSeries_Slice :: "'a GotaSeries \<Rightarrow> int \<Rightarrow> int \<Rightarrow> panic + 'a GotaSeries" where
  "GotaSeries_Slice s j k =
     (if Err s \<noteq> None then Inr s
      else if j > k \<or> j < 0 \<or> k \<ge> GotaSeries_Len s
        then Inr ((GotaSeries_Empty s)\<lparr>Err := Some SliceIndexOutOfBounds\<rparr>)
      else GotaSeries_Subset s (IdxInts (Slice_idxs j k)))"

section \<open>Ordering a series\<close>

text \<open>
  \<open>Order\<close> walks the series once, collecting the positions of the missing elements
  in \<open>nasIdx\<close> and the others, with their positions, in \<open>ie\<close>; sorts \<open>ie\<close> with
  \<open>sort.Stable\<close> (through \<open>sort.Reverse\<close> when \<open>reverse\<close> is set) and returns the
  sorted positions followed by \<open>nasIdx\<close>.

  Modelled from the spec: the declaration of \<open>indexedElements\<close> (with its \<open>Less\<close>) is not
  among the sources; by the specification the elements are sorted by value, so
  \<open>Less\<close> compares the two elements with \<open>ElementValue.Less\<close>. \<open>sort.Stable\<close> of the Go
  library is modelled by the insertion sort it is built on, which moves every element
  left past the elements it is less than; \<open>sort.Reverse\<close> swaps the arguments of
  \<open>Less\<close>. The element type is a linear order (Go's \<open>constraints.Ordered\<close> without the
  floating-point NaN).
\<close>

type_synonym 'a indexedElement = "int \<times> 'a ElementValue"

definition indexedElements_Less :: "'a::linorder indexedElement \<Rightarrow> 'a indexedElement \<Rightarrow> bool" where
  "indexedElements_Less x y \<longleftrightarrow> ElementValue_Less (snd x) (snd y)"

definition sort_Reverse :: "('b \<Rightarrow> 'b \<Rightarrow> bool) \<Rightarrow> 'b \<Rightarrow> 'b \<Rightarrow> bool" where
  "sort_Reverse lt x y \<longleftrightarrow> lt y x"

fun insert_Stable :: "('b \<Rightarrow> 'b \<Rightarrow> bool) \<Rightarrow> 'b \<Rightarrow> 'b list \<Rightarrow> 'b list" where
  "insert_Stable lt x [] = [x]"
| "insert_Stable lt x (y # ys) =
     (if lt x y then x # y # ys else y # insert_Stable lt x ys)"

definition sort_Stable :: "('b \<Rightarrow> 'b \<Rightarrow> bool) \<Rightarrow> 'b list \<Rightarrow> 'b list" where
  "sort_Stable lt xs = foldl (\<lambda>acc x. insert_Stable lt x acc) [] xs"

fun Order_split :: "int \<Rightarrow> 'a ElementValue list \<Rightarrow> 'a indexedElement list \<times> int list" where
  "Order_split i [] = ([], [])"
| "Order_split i (e # es) =
     (case Order_split (i + 1) es of (ie, nasIdx) \<Rightarrow>
        if ElementValue_IsNA e then (ie, i # nasIdx) else ((i, e) # ie, nasIdx))"

definition GotaSeries_Order :: "'a::linorder GotaSeries \<Rightarrow> bool \<Rightarrow> int list" where
  "GotaSeries_Order s reverse =
     (case Order_split 0 (elements s) of (ie, nasIdx) \<Rightarrow>
        map fst (sort_Stable
                   (if reverse then sort_Reverse indexedElements_Less else indexedElements_Less) ie)
        @ nasIdx)"


text \<open>The order of a key, ascending or descending: what \<open>Order\<close> sorts by.\<close>

definition key_less :: "('b \<Rightarrow> 'k::linorder) \<Rightarrow> bool \<Rightarrow> 'b \<Rightarrow> 'b \<Rightarrow> bool" where
  "key_less k r x y \<longleftrightarrow> (if r then k y < k x else k x < k y)"

section \<open>Slices, loops and panics\<close>

text \<open>
  Indexing a Go slice out of range panics. \<open>and_then\<close> runs the rest of a function
  when a call did not panic, \<open>for_each\<close> is a loop whose body can panic, and
  \<open>go_range n\<close> are the values of \<open>i\<close> in \<open>for i := 0; i < n; i++\<close>.
\<close>

definition slice_index :: "'b list \<Rightarrow> int \<Rightarrow> panic + 'b" where
  "slice_index xs i =
     (if 0 \<le> i \<and> i < int (length xs) then Inr (xs ! nat i) else Inl IndexOutOfRange)"

definition and_then :: "panic + 'b \<Rightarrow> ('b \<Rightarrow> panic + 'c) \<Rightarrow> panic + 'c" where
  "and_then m f = (case m of Inl p \<Rightarrow> Inl p | Inr x \<Rightarrow> f x)"

fun for_each :: "('b \<Rightarrow> panic + 'c) \<Rightarrow> 'b list \<Rightarrow> panic + 'c list" where
  "for_each f [] = Inr []"
| "for_each f (x # xs) =
     and_then (f x) (\<lambda>y. and_then (for_each f xs) (\<lambda>ys. Inr (y # ys)))"

definition go_range :: "int \<Rightarrow> int list" where
  "go_range n = map int [0..<nat n]"

section \<open>Data frames (dataframe/gota\_dataframe.go)\<close>

text \<open>
  The columns of a data frame are of the type \<open>series.Series1\<close>, whose declaration is
  not among the sources; they are modelled by the series above, over one type of
  values for all columns. The functions that build a frame set \<open>ncols\<close> to the number
  of its columns, so \<open>Names\<close> has one name for each column. A frame written
  \<open>GotaDataFrame{Err: err}\<close> has no columns and the dimensions 0.
\<close>

record 'a GotaDataFrame =
  columns_df :: "'a GotaSeries list"
  ncols_df :: int
  nrows_df :: int
  Err_df :: "error option"

definition GotaDataFrame_Err :: "error \<Rightarrow> 'a GotaDataFrame" where
  "GotaDataFrame_Err err = \<lparr>columns_df = [], ncols_df = 0, nrows_df = 0, Err_df = Some err\<rparr>"

definition GotaDataFrame_Names :: "'a GotaDataFrame \<Rightarrow> string list" where
  "GotaDataFrame_Names df = map Name (columns_df df)"

definition GotaDataFrame_NRow :: "'a GotaDataFrame \<Rightarrow> int" where
  "GotaDataFrame_NRow df = nrows_df df"

definition GotaDataFrame_NCol :: "'a GotaDataFrame \<Rightarrow> int" where
  "GotaDataFrame_NCol df = ncols_df df"

definition GotaDataFrame_Columns :: "'a GotaDataFrame \<Rightarrow> 'a GotaSeries list" where
  "GotaDataFrame_Columns df = columns_df df"

fun findInStringSlice_from :: "int \<Rightarrow> string \<Rightarrow> string list \<Rightarrow> int" where
  "findInStringSlice_from i str [] = - 1"
| "findInStringSlice_from i str (e # s) =
     (if e = str then i else findInStringSlice_from (i + 1) str s)"

definition findInStringSlice :: "string \<Rightarrow> string list \<Rightarrow> int" where
  "findInStringSlice str s = findInStringSlice_from 0 str s"

definition inIntSlice :: "int \<Rightarrow> int list \<Rightarrow> bool" where
  "inIntSlice i is \<longleftrightarrow> list_ex (\<lambda>v. v = i) is"

definition GotaDataFrame_ColIndex :: "'a GotaDataFrame \<Rightarrow> string \<Rightarrow> int" where
  "GotaDataFrame_ColIndex df s = findInStringSlice_from 0 s (GotaDataFrame_Names df)"

text \<open>
  \<open>checkColumnsDimensions\<close> returns the dimensions and an error: \<open>nrows\<close> starts at
  -1 and becomes the length of the first series; the loop stops at the first series
  with an error or with another length.
\<close>

fun checkColumnsDimensions_loop ::
  "int \<Rightarrow> 'a GotaSeries list \<Rightarrow> int \<Rightarrow> int \<times> error option" where
  "checkColumnsDimensions_loop i [] nrows = (nrows, None)"
| "checkColumnsDimensions_loop i (s # se) nrows =
     (case Err s of
        Some err \<Rightarrow> (nrows, Some (ErrorOnSeries i err))
      | None \<Rightarrow>
          (let nrows' = (if nrows = - 1 then GotaSeries_Len s else nrows)
           in if nrows' \<noteq> GotaSeries_Len s then (nrows', Some DifferentDimensions)
              else checkColumnsDimensions_loop (i + 1) se nrows'))"

definition checkColumnsDimensions :: "'a GotaSeries list \<Rightarrow> int \<times> int \<times> error option" where
  "checkColumnsDimensions se =
     (let ncols = int (length se); nrows = - 1
      in if ncols = 0 then (nrows, ncols, Some NoSeriesGiven)
         else case checkColumnsDimensions_loop 0 se nrows of
           (nrows', err) \<Rightarrow> (nrows', ncols, err))"

text \<open>
  \<open>fixColnames\<close> is not among the sources: it is a parameter of the functions that
  call it. It rewrites the slice of names in place, so it returns as many names as
  it is given; the loop after it stores the names in the columns.
\<close>

fun set_colnames :: "'a GotaSeries list \<Rightarrow> string list \<Rightarrow> 'a GotaSeries list" where
  "set_colnames (s # columns) (colname # colnames) =
     s\<lparr>Name := colname\<rparr> # set_colnames columns colnames"
| "set_colnames columns colnames = columns"

definition New :: "(string list \<Rightarrow> string list) \<Rightarrow> 'a GotaSeries list \<Rightarrow> 'a GotaDataFrame" where
  "New fixColnames se =
     (if se = [] then GotaDataFrame_Err EmptyDataFrame
      else
        (let columns = map GotaSeries_Copy se
         in case checkColumnsDimensions columns of
           (nrows, ncols, Some err) \<Rightarrow> GotaDataFrame_Err err
         | (nrows, ncols, None) \<Rightarrow>
             \<lparr>columns_df = set_colnames columns (fixColnames (map Name columns)),
              ncols_df = ncols, nrows_df = nrows, Err_df = None\<rparr>))"

definition GotaDataFrame_Copy ::
  "(string list \<Rightarrow> string list) \<Rightarrow> 'a GotaDataFrame \<Rightarrow> 'a GotaDataFrame" where
  "GotaDataFrame_Copy fixColnames df =
     (let copy = New fixColnames (columns_df df)
      in if Err_df df \<noteq> None then copy\<lparr>Err_df := Err_df df\<rparr> else copy)"

definition GotaDataFrame_Subset :: "'a GotaDataFrame \<Rightarrow> Indexes \<Rightarrow> panic + 'a GotaDataFrame" where
  "GotaDataFrame_Subset df indexes =
     (if Err_df df \<noteq> None then Inr df
      else
        and_then (for_each (\<lambda>column. GotaSeries_Subset column indexes) (columns_df df))
          (\<lambda>columns.
             case checkColumnsDimensions columns of
               (nrows, ncols, Some err) \<Rightarrow> Inr (GotaDataFrame_Err err)
             | (nrows, ncols, None) \<Rightarrow>
                 Inr \<lparr>columns_df = columns, ncols_df = ncols, nrows_df = nrows, Err_df = None\<rparr>))"

section \<open>Joins\<close>

text \<open>
  The five joins share their parts. \<open>join_keys\<close> is the loop that looks every key up
  in both frames and collects the keys it cannot find; \<open>not_keys\<close> are the columns
  that are no keys; \<open>join_newCols\<close> are the empty columns of the result.
\<close>

fun join_keys ::
  "'a GotaDataFrame \<Rightarrow> 'a GotaDataFrame \<Rightarrow> string list
   \<Rightarrow> int list \<times> int list \<times> (string \<times> join_side) list" where
  "join_keys df b [] = ([], [], [])"
| "join_keys df b (key # keys) =
     (let i = GotaDataFrame_ColIndex df key; j = GotaDataFrame_ColIndex b key
      in case join_keys df b keys of
        (iKeysA, iKeysB, errorArr) \<Rightarrow>
          (i # iKeysA, j # iKeysB,
           (if i < 0 then [(key, LeftDataFrame)] else [])
           @ (if j < 0 then [(key, RightDataFrame)] else []) @ errorArr))"

definition not_keys :: "int \<Rightarrow> int list \<Rightarrow> int list" where
  "not_keys n iKeys = filter (\<lambda>i. \<not> inIntSlice i iKeys) (go_range n)"

definition empty_columns :: "'a GotaSeries list \<Rightarrow> int list \<Rightarrow> panic + 'a GotaSeries list" where
  "empty_columns cols is =
     for_each (\<lambda>i. and_then (slice_index cols i) (\<lambda>c. Inr (GotaSeries_Empty c))) is"

definition join_newCols ::
  "'a GotaSeries list \<Rightarrow> 'a GotaSeries list \<Rightarrow> int list \<Rightarrow> int list \<Rightarrow> int list
   \<Rightarrow> panic + 'a GotaSeries list" where
  "join_newCols aCols bCols iKeysA iNotKeysA iNotKeysB =
     and_then (empty_columns aCols (iKeysA @ iNotKeysA)) (\<lambda>as.
     and_then (empty_columns bCols iNotKeysB) (\<lambda>bs. Inr (as @ bs)))"

text \<open>
  \<open>GotaSeries_Elem\<close> is the element of a column at a row. \<open>read_row\<close> reads one row of
  the columns \<open>ks\<close>; \<open>keys_match\<close> is the loop over the keys that compares the key
  elements of row \<open>i\<close> of the left frame and row \<open>j\<close> of the right one with \<open>Eq\<close>.
\<close>

definition GotaSeries_Elem :: "'a GotaSeries \<Rightarrow> int \<Rightarrow> panic + 'a ElementValue" where
  "GotaSeries_Elem s i = ElementsArray_Elem (elements s) i"

definition read_row :: "'a GotaSeries list \<Rightarrow> int list \<Rightarrow> int \<Rightarrow> panic + 'a ElementValue list" where
  "read_row cols ks i =
     for_each (\<lambda>k. and_then (slice_index cols k) (\<lambda>c. GotaSeries_Elem c i)) ks"

definition keys_match ::
  "'a GotaSeries list \<Rightarrow> 'a GotaSeries list \<Rightarrow> int list \<Rightarrow> int list \<Rightarrow> int \<Rightarrow> int
   \<Rightarrow> panic + bool" where
  "keys_match aCols bCols iKeysA iKeysB i j =
     and_then
       (for_each
          (\<lambda>(ka, kb).
             and_then (and_then (slice_index aCols ka) (\<lambda>c. GotaSeries_Elem c i)) (\<lambda>aElem.
             and_then (and_then (slice_index bCols kb) (\<lambda>c. GotaSeries_Elem c j)) (\<lambda>bElem.
             Inr (ElementValue_Eq aElem bElem))))
          (zip iKeysA iKeysB))
       (\<lambda>eqs. Inr (list_all (\<lambda>m. m) eqs))"

text \<open>
  Modelled from the spec: \<open>Append\<close> of \<open>series.Series1\<close>, called with an element or with
  \<open>nil\<close>, is not among the sources. By the specification a join copies the elements of
  the matching rows and sets the cells it has no row for missing: \<open>Append\<close> of an
  element adds a copy of it, \<open>Append(nil)\<close> adds a missing element (holding \<open>zero\<close>,
  the zero value), and a series with an error stays as it is.
\<close>

definition missing_element :: "'a \<Rightarrow> 'a ElementValue" where
  "missing_element zero = \<lparr>value_ev = zero, nan_ev = True\<rparr>"

definition Series1_Append :: "'a GotaSeries \<Rightarrow> 'a ElementValue \<Rightarrow> 'a GotaSeries" where
  "Series1_Append s elem =
     (if Err s \<noteq> None then s
      else s\<lparr>elements := ElementsArray_AppendElements (elements s) [ElementValue_Copy elem]\<rparr>)"

fun append_row :: "'a GotaSeries list \<Rightarrow> 'a ElementValue list \<Rightarrow> panic + 'a GotaSeries list" where
  "append_row newCols [] = Inr newCols"
| "append_row [] (elem # row) = Inl IndexOutOfRange"
| "append_row (s # newCols) (elem # row) =
     and_then (append_row newCols row) (\<lambda>rest. Inr (Series1_Append s elem # rest))"

fun append_rows ::
  "'a GotaSeries list \<Rightarrow> 'a ElementValue list list \<Rightarrow> panic + 'a GotaSeries list" where
  "append_rows newCols [] = Inr newCols"
| "append_rows newCols (row # rows) =
     and_then (append_row newCols row) (\<lambda>newCols'. append_rows newCols' rows)"

definition matched_row ::
  "'a GotaSeries list \<Rightarrow> 'a GotaSeries list \<Rightarrow> int list \<Rightarrow> int list \<Rightarrow> int \<Rightarrow> int
   \<Rightarrow> panic + 'a ElementValue list" where
  "matched_row aCols bCols iA iNotKeysB i j =
     and_then (read_row aCols iA i) (\<lambda>as.
     and_then (read_row bCols iNotKeysB j) (\<lambda>bs. Inr (as @ bs)))"

definition left_only_row ::
  "'a \<Rightarrow> 'a GotaSeries list \<Rightarrow> int list \<Rightarrow> int list \<Rightarrow> int \<Rightarrow> panic + 'a ElementValue list" where
  "left_only_row zero aCols iA iNotKeysB i =
     and_then (read_row aCols iA i) (\<lambda>as.
     Inr (as @ map (\<lambda>_. missing_element zero) iNotKeysB))"

definition matching_rows ::
  "'a GotaSeries list \<Rightarrow> 'a GotaSeries list \<Rightarrow> int list \<Rightarrow> int list \<Rightarrow> int list \<Rightarrow> int list
   \<Rightarrow> int \<Rightarrow> int \<Rightarrow> panic + 'a ElementValue list list" where
  "matching_rows aCols bCols iKeysA iKeysB iNotKeysA iNotKeysB nb i =
     and_then
       (for_each
          (\<lambda>j. and_then (keys_match aCols bCols iKeysA iKeysB i j) (\<lambda>match.
                if match
                then and_then (matched_row aCols bCols (iKeysA @ iNotKeysA) iNotKeysB i j)
                       (\<lambda>row. Inr [row])
                else Inr []))
          (go_range nb))
       (\<lambda>rows. Inr (concat rows))"

definition InnerJoin_rows ::
  "'a GotaSeries list \<Rightarrow> 'a GotaSeries list \<Rightarrow> int list \<Rightarrow> int list \<Rightarrow> int list \<Rightarrow> int list
   \<Rightarrow> int \<Rightarrow> int \<Rightarrow> panic + 'a ElementValue list list" where
  "InnerJoin_rows aCols bCols iKeysA iKeysB iNotKeysA iNotKeysB na nb =
     and_then
       (for_each (matching_rows aCols bCols iKeysA iKeysB iNotKeysA iNotKeysB nb) (go_range na))
       (\<lambda>rows. Inr (concat rows))"

definition LeftJoin_rows ::
  "'a \<Rightarrow> 'a GotaSeries list \<Rightarrow> 'a GotaSeries list \<Rightarrow> int list \<Rightarrow> int list \<Rightarrow> int list
   \<Rightarrow> int list \<Rightarrow> int \<Rightarrow> int \<Rightarrow> panic + 'a ElementValue list list" where
  "LeftJoin_rows zero aCols bCols iKeysA iKeysB iNotKeysA iNotKeysB na nb =
     and_then
       (for_each
          (\<lambda>i. and_then (matching_rows aCols bCols iKeysA iKeysB iNotKeysA iNotKeysB nb i)
                  (\<lambda>rows.
                     if rows = []
                     then and_then (left_only_row zero aCols (iKeysA @ iNotKeysA) iNotKeysB i)
                            (\<lambda>row. Inr [row])
                     else Inr rows))
          (go_range na))
       (\<lambda>rows. Inr (concat rows))"

definition GotaDataFrame_InnerJoin ::
  "(string list \<Rightarrow> string list) \<Rightarrow> 'a GotaDataFrame \<Rightarrow> 'a GotaDataFrame \<Rightarrow> string list
   \<Rightarrow> panic + 'a GotaDataFrame" where
  "GotaDataFrame_InnerJoin fixColnames df b keys =
     (if keys = [] then Inr (GotaDataFrame_Err JoinKeysNotSpecified)
      else case join_keys df b keys of
        (iKeysA, iKeysB, errorArr) \<Rightarrow>
          if errorArr \<noteq> [] then Inr (GotaDataFrame_Err (JoinCantFindKeys errorArr))
          else
            (let aCols = columns_df df; bCols = GotaDataFrame_Columns b;
                 iNotKeysA = not_keys (ncols_df df) iKeysA;
                 iNotKeysB = not_keys (GotaDataFrame_NCol b) iKeysB
             in and_then (join_newCols aCols bCols iKeysA iNotKeysA iNotKeysB) (\<lambda>newCols.
                and_then (InnerJoin_rows aCols bCols iKeysA iKeysB iNotKeysA iNotKeysB
                            (nrows_df df) (GotaDataFrame_NRow b)) (\<lambda>rows.
                and_then (append_rows newCols rows) (\<lambda>newCols'.
                Inr (New fixColnames newCols'))))))"

definition GotaDataFrame_LeftJoin ::
  "(string list \<Rightarrow> string list) \<Rightarrow> 'a \<Rightarrow> 'a GotaDataFrame \<Rightarrow> 'a GotaDataFrame \<Rightarrow> string list
   \<Rightarrow> panic + 'a GotaDataFrame" where
  "GotaDataFrame_LeftJoin fixColnames zero df b keys =
     (if keys = [] then Inr (GotaDataFrame_Err JoinKeysNotSpecified)
      else case join_keys df b keys of
        (iKeysA, iKeysB, errorArr) \<Rightarrow>
          if errorArr \<noteq> [] then Inr (GotaDataFrame_Err (JoinCantFindKeys errorArr))
          else
            (let aCols = columns_df df; bCols = GotaDataFrame_Columns b;
                 iNotKeysA = not_keys (ncols_df df) iKeysA;
                 iNotKeysB = not_keys (GotaDataFrame_NCol b) iKeysB
             in and_then (join_newCols aCols bCols iKeysA iNotKeysA iNotKeysB) (\<lambda>newCols.
                and_then (LeftJoin_rows zero aCols bCols iKeysA iKeysB iNotKeysA iNotKeysB
                            (nrows_df df) (GotaDataFrame_NRow b)) (\<lambda>rows.
                and_then (append_rows newCols rows) (\<lambda>newCols'.
                Inr (New fixColnames newCols'))))))"

definition CrossJoin_rows ::
  "'a GotaSeries list \<Rightarrow> 'a GotaSeries list \<Rightarrow> int \<Rightarrow> int \<Rightarrow> int \<Rightarrow> int
   \<Rightarrow> panic + 'a ElementValue list list" where
  "CrossJoin_rows aCols bCols nca ncb na nb =
     and_then
       (for_each
          (\<lambda>i. for_each (\<lambda>j. matched_row aCols bCols (go_range nca) (go_range ncb) i j)
                  (go_range nb))
          (go_range na))
       (\<lambda>rows. Inr (concat rows))"

definition GotaDataFrame_CrossJoin ::
  "(string list \<Rightarrow> string list) \<Rightarrow> 'a GotaDataFrame \<Rightarrow> 'a GotaDataFrame
   \<Rightarrow> panic + 'a GotaDataFrame" where
  "GotaDataFrame_CrossJoin fixColnames df b =
     (let aCols = columns_df df; bCols = GotaDataFrame_Columns b
      in and_then (empty_columns aCols (go_range (ncols_df df))) (\<lambda>as.
         and_then (empty_columns bCols (go_range (GotaDataFrame_NCol b))) (\<lambda>bs.
         and_then (CrossJoin_rows aCols bCols (ncols_df df) (GotaDataFrame_NCol b)
                     (nrows_df df) (GotaDataFrame_NRow b)) (\<lambda>rows.
         and_then (append_rows (as @ bs) rows) (\<lambda>newCols.
         Inr (New fixColnames newCols))))))"

section \<open>Notions used in the statements and proofs\<close>

text \<open>
  A frame is well formed when \<open>ncols\<close> is the number of its columns and every column
  is free of errors and has \<open>nrows\<close> elements: what \<open>checkColumnsDimensions\<close> establishes
  for every frame the functions build. The key rows of a frame are the rows of its
  key columns; a frame has no duplicate rows per key when they are distinct.
\<close>

definition well_formed :: "'a GotaDataFrame \<Rightarrow> bool" where
  "well_formed df \<longleftrightarrow>
     ncols_df df = int (length (columns_df df))
     \<and> list_all (\<lambda>s. Err s = None \<and> GotaSeries_Len s = nrows_df df) (columns_df df)"

definition key_rows :: "'a GotaDataFrame \<Rightarrow> string list \<Rightarrow> 'a ElementValue list list" where
  "key_rows df keys =
     map (\<lambda>i. map (\<lambda>key. elements (columns_df df ! nat (GotaDataFrame_ColIndex df key)) ! nat i)
                keys)
         (go_range (nrows_df df))"

definition no_duplicate_key_rows :: "'a GotaDataFrame \<Rightarrow> string list \<Rightarrow> bool" where
  "no_duplicate_key_rows df keys \<longleftrightarrow> distinct (key_rows df keys)"

text \<open>
  The cell at column \<open>k\<close> and row \<open>i\<close>; the rows a left row matches, as \<open>matching_rows\<close>
  collects them when nothing panics; columns that hold \<open>m\<close> elements each.
\<close>

definition cell :: "'a GotaSeries list \<Rightarrow> int \<Rightarrow> int \<Rightarrow> 'a ElementValue" where
  "cell cols k i = elements (cols ! nat k) ! nat i"

definition rows_equal ::
  "'a GotaSeries list \<Rightarrow> 'a GotaSeries list \<Rightarrow> int list \<Rightarrow> int list \<Rightarrow> int \<Rightarrow> int \<Rightarrow> bool" where
  "rows_equal aCols bCols iKeysA iKeysB i j \<longleftrightarrow>
     list_all (\<lambda>(ka, kb). ElementValue_Eq (cell aCols ka i) (cell bCols kb j)) (zip iKeysA iKeysB)"

definition matches_of ::
  "'a GotaSeries list \<Rightarrow> 'a GotaSeries list \<Rightarrow> int list \<Rightarrow> int list \<Rightarrow> int list \<Rightarrow> int list
   \<Rightarrow> int \<Rightarrow> int \<Rightarrow> 'a ElementValue list list" where
  "matches_of aCols bCols iKeysA iKeysB iNotKeysA iNotKeysB nb i =
     concat (map (\<lambda>j. if rows_equal aCols bCols iKeysA iKeysB i j
                       then [map (\<lambda>k. cell aCols k i) (iKeysA @ iNotKeysA)
                             @ map (\<lambda>k. cell bCols k j) iNotKeysB]
                       else [])
               (go_range nb))"

definition filled :: "nat \<Rightarrow> 'a GotaSeries list \<Rightarrow> bool" where
  "filled m cols \<longleftrightarrow> list_all (\<lambda>s. Err s = None \<and> length (elements s) = m) cols"

section \<open>Type inference (findType)\<close>

text \<open>
  The types of a series are the constants \<open>series.String\<close>, \<open>series.Int\<close>,
  \<open>series.Float\<close> and \<open>series.Bool\<close> of the string type \<open>series.Type\<close>;
  \<open>series_Type\<close> is any other value of that type.

  \<open>strconv.Atoi\<close> and \<open>strconv.ParseFloat\<close> belong to the Go library: they are
  parameters of \<open>findType\<close>, returning \<open>None\<close> where the library returns an error.
  The loop keeps the four flags \<open>hasFloats\<close>, \<open>hasInts\<close>, \<open>hasBools\<close> and
  \<open>hasStrings\<close>.
\<close>

datatype Type = series_String | series_Int | series_Float | series_Bool | series_Type string

fun findType_loop ::
  "(string \<Rightarrow> int option) \<Rightarrow> (string \<Rightarrow> 'f option) \<Rightarrow> string list
   \<Rightarrow> bool \<times> bool \<times> bool \<times> bool \<Rightarrow> bool \<times> bool \<times> bool \<times> bool" where
  "findType_loop Atoi ParseFloat [] flags = flags"
| "findType_loop Atoi ParseFloat (str # arr) (hasFloats, hasInts, hasBools, hasStrings) =
     (if str = '''' \<or> str = ''NaN''
        then findType_loop Atoi ParseFloat arr (hasFloats, hasInts, hasBools, hasStrings)
      else if Atoi str \<noteq> None
        then findType_loop Atoi ParseFloat arr (hasFloats, True, hasBools, hasStrings)
      else if ParseFloat str \<noteq> None
        then findType_loop Atoi ParseFloat arr (True, hasInts, hasBools, hasStrings)
      else if str = ''true'' \<or> str = ''false''
        then findType_loop Atoi ParseFloat arr (hasFloats, hasInts, True, hasStrings)
      else findType_loop Atoi ParseFloat arr (hasFloats, hasInts, hasBools, True))"

definition findType ::
  "(string \<Rightarrow> int option) \<Rightarrow> (string \<Rightarrow> 'f option) \<Rightarrow> string list \<Rightarrow> Type \<times> error option" where
  "findType Atoi ParseFloat arr =
     (case findType_loop Atoi ParseFloat arr (False, False, False, False) of
        (hasFloats, hasInts, hasBools, hasStrings) \<Rightarrow>
          if hasStrings then (series_String, None)
          else if hasBools then (series_Bool, None)
          else if hasFloats then (series_Float, None)
          else if hasInts then (series_Int, None)
          else (series_String, Some CouldntDetectType))"

text \<open>
  The specification's words: empty and \<open>NaN\<close> tokens are ignored; a token is an
  integer if it parses as one, else a float if it parses as one, else a Boolean if it
  is \<open>true\<close> or \<open>false\<close>, else text; the type is chosen by the priority
  text, Boolean, float, integer, and there is an error when no token is left.
\<close>

definition spec_ignored :: "string \<Rightarrow> bool" where
  "spec_ignored token \<longleftrightarrow> token = '''' \<or> token = ''NaN''"

definition spec_classify ::
  "(string \<Rightarrow> int option) \<Rightarrow> (string \<Rightarrow> 'f option) \<Rightarrow> string \<Rightarrow> Type" where
  "spec_classify Atoi ParseFloat token =
     (if Atoi token \<noteq> None then series_Int
      else if ParseFloat token \<noteq> None then series_Float
      else if token = ''true'' \<or> token = ''false'' then series_Bool
      else series_String)"

definition spec_inferred_type ::
  "(string \<Rightarrow> int option) \<Rightarrow> (string \<Rightarrow> 'f option) \<Rightarrow> string list \<Rightarrow> Type \<times> error option" where
  "spec_inferred_type Atoi ParseFloat tokens =
     (let classes = map (spec_classify Atoi ParseFloat)
                      (filter (\<lambda>token. \<not> spec_ignored token) tokens)
      in if series_String \<in> set classes then (series_String, None)
         else if series_Bool \<in> set classes then (series_Bool, None)
         else if series_Float \<in> set classes then (series_Float, None)
         else if series_Int \<in> set classes then (series_Int, None)
         else (series_String, Some CouldntDetectType))"

text \<open>Two parsers given by tables, for evaluating \<open>findType\<close> on the tokens of the examples.\<close>

definition table_Atoi :: "string \<Rightarrow> int option" where
  "table_Atoi str =
     (if str = ''1'' then Some 1 else if str = ''2'' then Some 2
      else if str = ''3'' then Some 3 else None)"

definition table_ParseFloat :: "string \<Rightarrow> (int \<times> int) option" where
  "table_ParseFloat str =
     (if str = ''1'' then Some (1, 1) else if str = ''2'' then Some (2, 1)
      else if str = ''3'' then Some (3, 1) else if str = ''2.5'' then Some (5, 2) else None)"

section \<open>Element equality and assignment\<close>

lemma ElementValue_Eq_iff:
  "ElementValue_Eq a b \<longleftrightarrow> nan_ev a = nan_ev b \<and> value_ev a = value_ev b"
  by (simp add: ElementValue_Eq_def ElementValue_IsNA_def ElementValue_Val_def)

text \<open>
  C2. Equality of two elements should hold exactly when the missing flags and the
  values agree. The generic element does that (\<open>ElementValue_Eq_iff\<close>); the Boolean
  element compares the values only: a missing \<open>false\<close> equals a present \<open>false\<close>.
\<close>

theorem C2_BoolElementValue_Eq_ignores_missing:
  "BoolElementValue_Eq \<lparr>value_b = False, nan_b = True\<rparr> (NewBoolElement False)
   \<and> BoolElementValue_IsNA \<lparr>value_b = False, nan_b = True\<rparr>
   \<and> \<not> BoolElementValue_IsNA (NewBoolElement False)"
  by (simp add: BoolElementValue_Eq_def BoolElementValue_Val_def BoolElementValue_IsNA_def
      NewBoolElement_def)

lemma Set_loop_IsNaN: "GotaSeries_IsNaN (Set_loop s idx vs) = GotaSeries_IsNaN s"
proof (induction s idx vs rule: Set_loop.induct)
  case (1 s i idx v vs)
  show ?case
  proof (cases "i < 0 \<or> i \<ge> GotaSeries_Len s")
    case True
    then show ?thesis by (simp add: GotaSeries_IsNaN_def)
  next
    case False
    then have "nat i < length (elements s)"
      by (auto simp: GotaSeries_Len_def ElementsArray_Len_def)
    then have "map ElementValue_IsNA
        ((elements s)[nat i := ElementValue_Set (elements s ! nat i) v])
      = map ElementValue_IsNA (elements s)"
      by (simp add: list_eq_iff_nth_eq nth_list_update ElementValue_IsNA_def
          ElementValue_Set_def)
    with False "1.IH" show ?thesis
      by (simp add: GotaSeries_IsNaN_def)
  qed
qed (simp_all)

text \<open>
  C10. Assigning to a generic element keeps its missing flag, assigning to a Boolean
  element clears it, and \<open>Series.Set\<close> therefore leaves what \<open>IsNaN\<close> reports unchanged
  at every position, on every path (also the ones that end in an error).
\<close>

theorem C10_Set_keeps_missing_flag:
  "ElementValue_IsNA (ElementValue_Set ev item) = ElementValue_IsNA ev
   \<and> \<not> BoolElementValue_IsNA (BoolElementValue_Set b other)
   \<and> GotaSeries_IsNaN (GotaSeries_Set s indexes newvalues) = GotaSeries_IsNaN s"
proof -
  have "GotaSeries_IsNaN (GotaSeries_Set s indexes newvalues) = GotaSeries_IsNaN s"
    by (simp add: GotaSeries_Set_def Set_loop_IsNaN split: option.splits sum.splits)
       (simp add: GotaSeries_IsNaN_def)
  then show ?thesis
    by (simp add: ElementValue_IsNA_def ElementValue_Set_def BoolElementValue_IsNA_def
        BoolElementValue_Set_def)
qed


section \<open>Slices\<close>

lemma Slice_in_range:
  "Err s = None \<Longrightarrow> 0 \<le> j \<Longrightarrow> j \<le> k \<Longrightarrow> k < GotaSeries_Len s \<Longrightarrow>
   GotaSeries_Slice s j k = GotaSeries_Subset s (IdxInts (Slice_idxs j k))"
  by (simp add: GotaSeries_Slice_def)

lemma Slice_out_of_bounds:
  "Err s = None \<Longrightarrow> j > k \<or> j < 0 \<or> k \<ge> GotaSeries_Len s \<Longrightarrow>
   GotaSeries_Slice s j k = Inr \<lparr>Name = Name s, elements = [], Err = Some SliceIndexOutOfBounds\<rparr>"
  by (simp add: GotaSeries_Slice_def GotaSeries_Empty_def NewSeries_def NewElements_def)

text \<open>
  C8. \<open>Slice(j, k)\<close> should fail only when \<open>j > k\<close>, \<open>j < 0\<close> or \<open>k\<close> exceeds the
  length, so that \<open>Slice(0, 3)\<close> of a column of length 3 is the whole column, as
  \<open>Subset\<close> of the positions 0, 1, 2 is. The code tests \<open>k >= s.Len()\<close>: the slice
  up to the end of the column is refused.
\<close>

theorem C8_Slice_to_end_fails:
  "GotaSeries_Slice (NewSeries ''x'' [1, 2, 3 :: int]) 0 3
     = Inr \<lparr>Name = ''x'', elements = [], Err = Some SliceIndexOutOfBounds\<rparr>
   \<and> GotaSeries_Subset (NewSeries ''x'' [1, 2, 3 :: int]) (IdxInts (Slice_idxs 0 3))
     = Inr (NewSeries ''x'' [1, 2, 3])"
proof -
  have idxs: "Slice_idxs 0 3 = [0, 1, 2]"
    by (simp add: Slice_idxs_def upt_rec)
  show ?thesis
    unfolding idxs
    by (simp add: GotaSeries_Slice_def GotaSeries_Subset_def GotaSeries_Empty_def NewSeries_def
        NewElements_def NewElement_def GotaSeries_Len_def ElementsArray_Len_def
        ElementsArray_Elem_def ElementValue_Val_def)
qed

section \<open>The stable sort\<close>

lemma mset_insert_Stable: "mset (insert_Stable lt x ys) = add_mset x (mset ys)"
  by (induction ys) auto

lemma set_insert_Stable: "set (insert_Stable lt x ys) = insert x (set ys)"
  by (induction ys) auto

lemma mset_foldl_insert_Stable:
  "mset (foldl (\<lambda>acc x. insert_Stable lt x acc) acc xs) = mset acc + mset xs"
  by (induction xs arbitrary: acc) (auto simp: mset_insert_Stable)

lemma mset_sort_Stable: "mset (sort_Stable lt xs) = mset xs"
  by (simp add: sort_Stable_def mset_foldl_insert_Stable)

lemma sorted_insert_Stable:
  "sorted_wrt (\<lambda>a b. \<not> key_less k r b a) ys \<Longrightarrow>
   sorted_wrt (\<lambda>a b. \<not> key_less k r b a) (insert_Stable (key_less k r) x ys)"
proof (induction ys)
  case Nil
  then show ?case by simp
next
  case (Cons y ys)
  show ?case
  proof (cases "key_less k r x y")
    case True
    have "\<not> key_less k r z x" if "z \<in> set ys" for z
    proof -
      from Cons.prems that have "\<not> key_less k r z y" by simp
      with True show ?thesis by (cases r) (auto simp: key_less_def)
    qed
    moreover from True have "\<not> key_less k r y x"
      by (cases r) (auto simp: key_less_def)
    ultimately show ?thesis using True Cons.prems by simp
  next
    case False
    with Cons show ?thesis by (auto simp: set_insert_Stable)
  qed
qed

lemma sorted_foldl_insert_Stable:
  "sorted_wrt (\<lambda>a b. \<not> key_less k r b a) acc \<Longrightarrow>
   sorted_wrt (\<lambda>a b. \<not> key_less k r b a)
     (foldl (\<lambda>acc x. insert_Stable (key_less k r) x acc) acc xs)"
  by (induction xs arbitrary: acc) (simp_all add: sorted_insert_Stable)

lemma sorted_sort_Stable:
  "sorted_wrt (\<lambda>a b. \<not> key_less k r b a) (sort_Stable (key_less k r) xs)"
  by (simp add: sort_Stable_def sorted_foldl_insert_Stable)

lemma filter_insert_Stable:
  "sorted_wrt (\<lambda>a b. \<not> key_less k r b a) ys \<Longrightarrow>
   filter (\<lambda>y. k y = v) (insert_Stable (key_less k r) x ys)
   = filter (\<lambda>y. k y = v) ys @ (if k x = v then [x] else [])"
proof (induction ys)
  case Nil
  then show ?case by simp
next
  case (Cons y ys)
  show ?case
  proof (cases "key_less k r x y")
    case True
    have "k z \<noteq> k x" if "z \<in> set (y # ys)" for z
    proof -
      from that Cons.prems have "z = y \<or> \<not> key_less k r z y" by auto
      with True show ?thesis by (cases r) (auto simp: key_less_def)
    qed
    then have "k x = v \<Longrightarrow> filter (\<lambda>y. k y = v) (y # ys) = []"
      by (auto simp: filter_empty_conv)
    with True show ?thesis by (cases "k x = v") simp_all
  next
    case False
    with Cons show ?thesis by simp
  qed
qed

lemma filter_foldl_insert_Stable:
  "sorted_wrt (\<lambda>a b. \<not> key_less k r b a) acc \<Longrightarrow>
   filter (\<lambda>y. k y = v) (foldl (\<lambda>acc x. insert_Stable (key_less k r) x acc) acc xs)
   = filter (\<lambda>y. k y = v) acc @ filter (\<lambda>y. k y = v) xs"
  by (induction xs arbitrary: acc) (simp_all add: sorted_insert_Stable filter_insert_Stable)

lemma filter_sort_Stable:
  "filter (\<lambda>y. k y = v) (sort_Stable (key_less k r) xs) = filter (\<lambda>y. k y = v) xs"
  by (simp add: sort_Stable_def filter_foldl_insert_Stable)


lemma positions_Suc:
  "map (\<lambda>k. i + int k) [0..<Suc n] = i # map (\<lambda>k. (i + 1) + int k) [0..<n]"
proof -
  have "map (\<lambda>k. i + int k) [0..<Suc n]
      = (i + int 0) # map (\<lambda>k. i + int (Suc k)) [0..<n]"
    by (rule map_upt_Suc)
  also have "\<dots> = i # map (\<lambda>k. (i + 1) + int k) [0..<n]"
    by (simp add: add.assoc)
  finally show ?thesis .
qed

lemma Order_split_zip:
  "Order_split i es =
     (filter (\<lambda>x. \<not> nan_ev (snd x)) (zip (map (\<lambda>k. i + int k) [0..<length es]) es),
      map fst (filter (\<lambda>x. nan_ev (snd x)) (zip (map (\<lambda>k. i + int k) [0..<length es]) es)))"
proof (induction es arbitrary: i)
  case Nil
  then show ?case by simp
next
  case (Cons e es)
  show ?case
    unfolding length_Cons positions_Suc
    by (simp add: Cons.IH ElementValue_IsNA_def)
qed

lemma zip_positions:
  "zip (map int [0..<length es]) es = map (\<lambda>i. (i, es ! nat i)) (map int [0..<length es])"
  by (rule nth_equalityI) simp_all

lemma Order_split_positions:
  "Order_split 0 es =
     (map (\<lambda>i. (i, es ! nat i)) (filter (\<lambda>i. \<not> nan_ev (es ! nat i)) (map int [0..<length es])),
      filter (\<lambda>i. nan_ev (es ! nat i)) (map int [0..<length es]))"
proof -
  have "map (\<lambda>k. 0 + int k) [0..<length es] = map int [0..<length es]" by simp
  then show ?thesis
    unfolding Order_split_zip by (simp add: zip_positions filter_map o_def)
qed

lemma Order_less_key:
  "(if reverse then sort_Reverse indexedElements_Less else indexedElements_Less)
   = key_less (\<lambda>x. value_ev (snd x)) reverse"
  by (auto simp: fun_eq_iff key_less_def sort_Reverse_def indexedElements_Less_def
      ElementValue_Less_def ElementValue_Val_def)

text \<open>
  C6. \<open>Order(reverse)\<close> is a permutation of the positions: first the positions of
  the elements that are not missing, sorted by value (ascending, or descending when
  \<open>reverse\<close> is set), elements of equal value in their order of appearance; then the
  positions of the missing elements in their order of appearance. For the column
  3, 1, 2, missing it is 1, 2, 0, 3.
\<close>

theorem C6_Order_stable_sort_missing_last:
  fixes s :: "'a::linorder GotaSeries"
  shows "(\<exists>srt.
      GotaSeries_Order s reverse
        = srt @ filter (\<lambda>i. nan_ev (elements s ! nat i)) (map int [0..<length (elements s)])
    \<and> mset srt
        = mset (filter (\<lambda>i. \<not> nan_ev (elements s ! nat i)) (map int [0..<length (elements s)]))
    \<and> sorted_wrt (\<lambda>i j. if reverse
          then value_ev (elements s ! nat j) \<le> value_ev (elements s ! nat i)
          else value_ev (elements s ! nat i) \<le> value_ev (elements s ! nat j)) srt
    \<and> (\<forall>v. filter (\<lambda>i. value_ev (elements s ! nat i) = v) srt
          = filter (\<lambda>i. value_ev (elements s ! nat i) = v)
              (filter (\<lambda>i. \<not> nan_ev (elements s ! nat i))
                 (map int [0..<length (elements s)]))))
   \<and> mset (GotaSeries_Order s reverse) = mset (map int [0..<length (elements s)])
   \<and> GotaSeries_Order
        \<lparr>Name = ''x'',
         elements = [NewElement (3::int), NewElement 1, NewElement 2,
                     \<lparr>value_ev = 0, nan_ev = True\<rparr>],
         Err = None\<rparr> False = [1, 2, 0, 3]"
proof -
  define es where "es = elements s"
  define ps where "ps = filter (\<lambda>i. \<not> nan_ev (es ! nat i)) (map int [0..<length es])"
  define ns where "ns = filter (\<lambda>i. nan_ev (es ! nat i)) (map int [0..<length es])"
  define ie where "ie = map (\<lambda>i. (i, es ! nat i)) ps"
  define k :: "int \<times> 'a ElementValue \<Rightarrow> 'a" where "k = (\<lambda>x. value_ev (snd x))"
  define sorted_ie where "sorted_ie = sort_Stable (key_less k reverse) ie"
  define srt where "srt = map fst sorted_ie"
  have ord: "GotaSeries_Order s reverse = srt @ ns"
    by (simp add: GotaSeries_Order_def Order_split_positions Order_less_key srt_def
        sorted_ie_def ie_def ps_def ns_def es_def k_def)
  have snd_ie: "snd x = es ! nat (fst x)" if "x \<in> set sorted_ie" for x
  proof -
    from that have "x \<in># mset sorted_ie" by simp
    then have "x \<in> set ie" by (simp add: sorted_ie_def mset_sort_Stable)
    then show ?thesis by (auto simp: ie_def)
  qed
  have m: "mset srt = mset ps"
  proof -
    have "mset srt = image_mset fst (mset ie)"
      by (simp add: srt_def sorted_ie_def mset_sort_Stable)
    also have "\<dots> = mset ps"
      by (simp add: ie_def multiset.map_comp o_def)
    finally show ?thesis .
  qed
  have "sorted_wrt (\<lambda>a b. \<not> key_less k reverse b a) sorted_ie"
    unfolding sorted_ie_def by (rule sorted_sort_Stable)
  then have "sorted_wrt (\<lambda>a b. if reverse
        then value_ev (es ! nat (fst b)) \<le> value_ev (es ! nat (fst a))
        else value_ev (es ! nat (fst a)) \<le> value_ev (es ! nat (fst b))) sorted_ie"
  proof (rule sorted_wrt_mono_rel[rotated])
    fix x y
    assume "x \<in> set sorted_ie" "y \<in> set sorted_ie" "\<not> key_less k reverse y x"
    then show "if reverse
        then value_ev (es ! nat (fst y)) \<le> value_ev (es ! nat (fst x))
        else value_ev (es ! nat (fst x)) \<le> value_ev (es ! nat (fst y))"
      using snd_ie[of x] snd_ie[of y] by (simp add: key_less_def k_def split: if_splits)
  qed
  then have srtd: "sorted_wrt (\<lambda>i j. if reverse
        then value_ev (es ! nat j) \<le> value_ev (es ! nat i)
        else value_ev (es ! nat i) \<le> value_ev (es ! nat j)) srt"
    by (simp add: srt_def sorted_wrt_map)
  have stable: "filter (\<lambda>i. value_ev (es ! nat i) = v) srt
      = filter (\<lambda>i. value_ev (es ! nat i) = v) ps" for v
  proof -
    have "filter (\<lambda>i. value_ev (es ! nat i) = v) srt
        = map fst (filter (\<lambda>x. value_ev (es ! nat (fst x)) = v) sorted_ie)"
      by (simp add: srt_def filter_map o_def)
    also have "filter (\<lambda>x. value_ev (es ! nat (fst x)) = v) sorted_ie
        = filter (\<lambda>x. k x = v) sorted_ie"
      by (rule filter_cong) (simp_all add: k_def snd_ie)
    also have "\<dots> = filter (\<lambda>x. k x = v) ie"
      unfolding sorted_ie_def by (rule filter_sort_Stable)
    also have "map fst \<dots> = filter (\<lambda>i. value_ev (es ! nat i) = v) ps"
      by (simp add: ie_def filter_map o_def k_def)
    finally show ?thesis .
  qed
  have perm: "mset (GotaSeries_Order s reverse) = mset (map int [0..<length es])"
  proof -
    have "mset ps + mset ns = mset (map int [0..<length es])"
      unfolding ps_def ns_def mset_filter by (simp add: union_commute)
    with ord m show ?thesis by simp
  qed
  have ex: "GotaSeries_Order
        \<lparr>Name = ''x'',
         elements = [NewElement (3::int), NewElement 1, NewElement 2,
                     \<lparr>value_ev = 0, nan_ev = True\<rparr>],
         Err = None\<rparr> False = [1, 2, 0, 3]"
    by (simp add: GotaSeries_Order_def NewElement_def ElementValue_IsNA_def sort_Stable_def
        indexedElements_Less_def ElementValue_Less_def ElementValue_Val_def)
  from ord m srtd stable perm ex show ?thesis
    unfolding es_def ps_def ns_def by blast
qed


section \<open>Evaluating the frame functions\<close>

lemmas join_eval =
  GotaDataFrame_CrossJoin_def GotaDataFrame_InnerJoin_def GotaDataFrame_LeftJoin_def
  GotaDataFrame_Err_def GotaDataFrame_Columns_def GotaDataFrame_NCol_def GotaDataFrame_NRow_def
  GotaDataFrame_ColIndex_def GotaDataFrame_Names_def
  New_def NewSeries_def NewElements_def NewElement_def GotaSeries_Copy_def ElementValue_Copy_def
  checkColumnsDimensions_def GotaSeries_Len_def ElementsArray_Len_def
  empty_columns_def join_newCols_def CrossJoin_rows_def InnerJoin_rows_def LeftJoin_rows_def
  matching_rows_def matched_row_def left_only_row_def keys_match_def read_row_def
  GotaSeries_Elem_def ElementsArray_Elem_def ElementsArray_AppendElements_def
  Series1_Append_def missing_element_def GotaSeries_Empty_def
  go_range_def not_keys_def inIntSlice_def slice_index_def and_then_def
  ElementValue_Eq_def ElementValue_IsNA_def ElementValue_Val_def

text \<open>
  C1. Every operation on a frame whose error is set should return a frame with the
  same error. The joins do not look at the error of their receiver: \<open>CrossJoin\<close> of
  a frame with an error and a frame with one column returns an empty frame with no
  error, and \<open>InnerJoin\<close> returns the error of a key that it cannot find. (Names are
  unique here, so \<open>fixColnames\<close> leaves them as they are.)
\<close>

theorem C1_joins_ignore_error_state:
  "map_sum id Err_df
     (GotaDataFrame_CrossJoin (\<lambda>colnames. colnames) (GotaDataFrame_Err (ErrMsg ''boom''))
        (New (\<lambda>colnames. colnames) [NewSeries ''id'' [1, 2 :: int]]))
   = Inr None
   \<and> map_sum id Err_df
     (GotaDataFrame_InnerJoin (\<lambda>colnames. colnames) (GotaDataFrame_Err (ErrMsg ''boom''))
        (New (\<lambda>colnames. colnames) [NewSeries ''id'' [1, 2 :: int]]) [''id''])
   = Inr (Some (JoinCantFindKeys [(''id'', LeftDataFrame)]))"
  by (simp add: join_eval upt_rec)

text \<open>
  C3. \<open>Subset\<close> with a permutation and then with its inverse should give the table
  back, missing flags included. \<open>Series.Subset\<close> builds the new elements from the
  values alone (\<open>NewElements\<close>): the missing element of the column 7, missing comes
  back as a present 0.
\<close>

theorem C3_Subset_drops_missing_flag:
  "and_then
     (GotaDataFrame_Subset
        \<lparr>columns_df = [\<lparr>Name = ''x'', elements = [NewElement (7::int), missing_element 0],
                        Err = None\<rparr>],
         ncols_df = 1, nrows_df = 2, Err_df = None\<rparr>
        (IdxInts [1, 0]))
     (\<lambda>T'. GotaDataFrame_Subset T' (IdxInts [1, 0]))
   = Inr \<lparr>columns_df = [\<lparr>Name = ''x'', elements = [NewElement 7, NewElement 0], Err = None\<rparr>],
          ncols_df = 1, nrows_df = 2, Err_df = None\<rparr>
   \<and> GotaSeries_IsNaN \<lparr>Name = ''x'', elements = [NewElement (7::int), missing_element 0],
                        Err = None\<rparr> = [False, True]
   \<and> GotaSeries_IsNaN \<lparr>Name = ''x'', elements = [NewElement (7::int), NewElement 0],
                        Err = None\<rparr> = [False, False]"
  by (simp add: GotaDataFrame_Subset_def GotaSeries_Subset_def and_then_def
      checkColumnsDimensions_def GotaSeries_Len_def ElementsArray_Len_def ElementsArray_Elem_def
      ElementValue_Val_def NewElements_def NewElement_def missing_element_def
      GotaSeries_IsNaN_def ElementValue_IsNA_def)

section \<open>Row counts of the left join\<close>

lemma and_then_Inr [simp]: "and_then (Inr x) f = f x"
  by (simp add: and_then_def)

lemma and_then_Inl [simp]: "and_then (Inl p) f = Inl p"
  by (simp add: and_then_def)

lemma for_each_Inr:
  "(\<And>x. x \<in> set xs \<Longrightarrow> f x = Inr (g x)) \<Longrightarrow> for_each f xs = Inr (map g xs)"
  by (induction xs) simp_all

lemma set_go_range: "set (go_range n) = {i. 0 \<le> i \<and> i < n}"
proof -
  have "i \<in> int ` {0..<nat n} \<longleftrightarrow> 0 \<le> i \<and> i < n" for i
  proof
    assume "i \<in> int ` {0..<nat n}"
    then show "0 \<le> i \<and> i < n" by auto
  next
    assume "0 \<le> i \<and> i < n"
    then have "nat i \<in> {0..<nat n}" "i = int (nat i)" by auto
    then show "i \<in> int ` {0..<nat n}" by blast
  qed
  then show ?thesis by (auto simp: go_range_def)
qed

lemma length_go_range: "length (go_range n) = nat n"
  by (simp add: go_range_def)

lemma distinct_go_range: "distinct (go_range n)"
  by (simp add: go_range_def distinct_map inj_on_def)

lemma findInStringSlice_from_found:
  "str \<in> set s \<Longrightarrow>
   i \<le> findInStringSlice_from i str s \<and> findInStringSlice_from i str s < i + int (length s)"
proof (induction s arbitrary: i)
  case Nil
  then show ?case by simp
next
  case (Cons e s)
  show ?case
  proof (cases "e = str")
    case True
    then show ?thesis by simp
  next
    case False
    with Cons.prems have "str \<in> set s" by simp
    from Cons.IH[OF this, of "i + 1"] False show ?thesis by simp
  qed
qed

lemma findInStringSlice_from_missing:
  "str \<notin> set s \<Longrightarrow> findInStringSlice_from i str s = - 1"
  by (induction s arbitrary: i) auto

lemma ColIndex_found:
  assumes "key \<in> set (GotaDataFrame_Names df)"
  shows "0 \<le> GotaDataFrame_ColIndex df key"
    and "GotaDataFrame_ColIndex df key < int (length (columns_df df))"
  using findInStringSlice_from_found[OF assms, of 0]
  by (simp_all add: GotaDataFrame_ColIndex_def GotaDataFrame_Names_def)

lemma join_keys_eq:
  "join_keys df b keys =
     (map (GotaDataFrame_ColIndex df) keys, map (GotaDataFrame_ColIndex b) keys,
      concat (map (\<lambda>key.
        (if GotaDataFrame_ColIndex df key < 0 then [(key, LeftDataFrame)] else [])
        @ (if GotaDataFrame_ColIndex b key < 0 then [(key, RightDataFrame)] else [])) keys))"
  by (induction keys) (simp_all add: Let_def)

lemma join_keys_found:
  assumes "list_all (\<lambda>key. key \<in> set (GotaDataFrame_Names df) \<and> key \<in> set (GotaDataFrame_Names b)) keys"
  shows "join_keys df b keys =
     (map (GotaDataFrame_ColIndex df) keys, map (GotaDataFrame_ColIndex b) keys, [])"
proof -
  have "(if GotaDataFrame_ColIndex df key < 0 then [(key, LeftDataFrame)] else [])
        @ (if GotaDataFrame_ColIndex b key < 0 then [(key, RightDataFrame)] else []) = []"
    if "key \<in> set keys" for key
  proof -
    from assms that have "key \<in> set (GotaDataFrame_Names df)" "key \<in> set (GotaDataFrame_Names b)"
      by (auto simp: list_all_iff)
    then show ?thesis using ColIndex_found(1)[of key df] ColIndex_found(1)[of key b] by simp
  qed
  then have "concat (map (\<lambda>key.
        (if GotaDataFrame_ColIndex df key < 0 then [(key, LeftDataFrame)] else [])
        @ (if GotaDataFrame_ColIndex b key < 0 then [(key, RightDataFrame)] else [])) keys) = []"
    by simp
  then show ?thesis by (simp add: join_keys_eq)
qed

lemma Elem_in_range:
  assumes "list_all (\<lambda>s. Err s = None \<and> GotaSeries_Len s = n) cols"
    and "0 \<le> k" "k < int (length cols)" "0 \<le> i" "i < n"
  shows "and_then (slice_index cols k) (\<lambda>c. GotaSeries_Elem c i) = Inr (cell cols k i)"
proof -
  from assms(2,3) have "cols ! nat k \<in> set cols" by simp
  with assms(1) have "GotaSeries_Len (cols ! nat k) = n" by (simp add: list_all_iff)
  with assms show ?thesis
    by (simp add: slice_index_def GotaSeries_Elem_def ElementsArray_Elem_def GotaSeries_Len_def
        cell_def)
qed

lemma read_row_in_range:
  assumes "list_all (\<lambda>s. Err s = None \<and> GotaSeries_Len s = n) cols"
    and "list_all (\<lambda>k. 0 \<le> k \<and> k < int (length cols)) ks" "0 \<le> i" "i < n"
  shows "read_row cols ks i = Inr (map (\<lambda>k. cell cols k i) ks)"
  unfolding read_row_def
proof (rule for_each_Inr)
  fix k assume "k \<in> set ks"
  with assms(2) have k: "0 \<le> k" "k < int (length cols)" by (auto simp: list_all_iff)
  show "and_then (slice_index cols k) (\<lambda>c. GotaSeries_Elem c i) = Inr (cell cols k i)"
    by (rule Elem_in_range[OF assms(1) k assms(3,4)])
qed

lemma keys_match_in_range:
  assumes a: "list_all (\<lambda>s. Err s = None \<and> GotaSeries_Len s = na) aCols"
    and b: "list_all (\<lambda>s. Err s = None \<and> GotaSeries_Len s = nb) bCols"
    and ka: "list_all (\<lambda>k. 0 \<le> k \<and> k < int (length aCols)) iKeysA"
    and kb: "list_all (\<lambda>k. 0 \<le> k \<and> k < int (length bCols)) iKeysB"
    and i: "0 \<le> i" "i < na" and j: "0 \<le> j" "j < nb"
  shows "keys_match aCols bCols iKeysA iKeysB i j = Inr (rows_equal aCols bCols iKeysA iKeysB i j)"
proof -
  have "for_each
          (\<lambda>(ka, kb).
             and_then (and_then (slice_index aCols ka) (\<lambda>c. GotaSeries_Elem c i)) (\<lambda>aElem.
             and_then (and_then (slice_index bCols kb) (\<lambda>c. GotaSeries_Elem c j)) (\<lambda>bElem.
             Inr (ElementValue_Eq aElem bElem))))
          (zip iKeysA iKeysB)
      = Inr (map (\<lambda>(ka, kb). ElementValue_Eq (cell aCols ka i) (cell bCols kb j)) (zip iKeysA iKeysB))"
  proof (rule for_each_Inr)
    fix x assume x: "x \<in> set (zip iKeysA iKeysB)"
    obtain k k' where xk: "x = (k, k')" by (cases x)
    with x have "k \<in> set iKeysA" "k' \<in> set iKeysB" by (auto dest: set_zip_leftD set_zip_rightD)
    with ka kb have "0 \<le> k" "k < int (length aCols)" "0 \<le> k'" "k' < int (length bCols)"
      by (auto simp: list_all_iff)
    then show "(case x of (ka, kb) \<Rightarrow>
             and_then (and_then (slice_index aCols ka) (\<lambda>c. GotaSeries_Elem c i)) (\<lambda>aElem.
             and_then (and_then (slice_index bCols kb) (\<lambda>c. GotaSeries_Elem c j)) (\<lambda>bElem.
             Inr (ElementValue_Eq aElem bElem))))
       = Inr (case x of (ka, kb) \<Rightarrow> ElementValue_Eq (cell aCols ka i) (cell bCols kb j))"
      using Elem_in_range[OF a _ _ i, of k] Elem_in_range[OF b _ _ j, of k'] xk by simp
  qed
  then show ?thesis
    by (simp add: keys_match_def rows_equal_def list_all_iff)
qed


lemma matched_row_in_range:
  assumes "list_all (\<lambda>s. Err s = None \<and> GotaSeries_Len s = na) aCols"
    and "list_all (\<lambda>s. Err s = None \<and> GotaSeries_Len s = nb) bCols"
    and "list_all (\<lambda>k. 0 \<le> k \<and> k < int (length aCols)) iA"
    and "list_all (\<lambda>k. 0 \<le> k \<and> k < int (length bCols)) iNotKeysB"
    and "0 \<le> i" "i < na" "0 \<le> j" "j < nb"
  shows "matched_row aCols bCols iA iNotKeysB i j
    = Inr (map (\<lambda>k. cell aCols k i) iA @ map (\<lambda>k. cell bCols k j) iNotKeysB)"
  using assms by (simp add: matched_row_def read_row_in_range)

lemma left_only_row_in_range:
  assumes "list_all (\<lambda>s. Err s = None \<and> GotaSeries_Len s = na) aCols"
    and "list_all (\<lambda>k. 0 \<le> k \<and> k < int (length aCols)) iA"
    and "0 \<le> i" "i < na"
  shows "left_only_row zero aCols iA iNotKeysB i
    = Inr (map (\<lambda>k. cell aCols k i) iA @ map (\<lambda>_. missing_element zero) iNotKeysB)"
  using assms by (simp add: left_only_row_def read_row_in_range)

lemma matching_rows_in_range:
  assumes a: "list_all (\<lambda>s. Err s = None \<and> GotaSeries_Len s = na) aCols"
    and b: "list_all (\<lambda>s. Err s = None \<and> GotaSeries_Len s = nb) bCols"
    and ka: "list_all (\<lambda>k. 0 \<le> k \<and> k < int (length aCols)) iKeysA"
    and kb: "list_all (\<lambda>k. 0 \<le> k \<and> k < int (length bCols)) iKeysB"
    and nka: "list_all (\<lambda>k. 0 \<le> k \<and> k < int (length aCols)) iNotKeysA"
    and nkb: "list_all (\<lambda>k. 0 \<le> k \<and> k < int (length bCols)) iNotKeysB"
    and i: "0 \<le> i" "i < na"
  shows "matching_rows aCols bCols iKeysA iKeysB iNotKeysA iNotKeysB nb i
    = Inr (matches_of aCols bCols iKeysA iKeysB iNotKeysA iNotKeysB nb i)"
proof -
  from ka nka have kall: "list_all (\<lambda>k. 0 \<le> k \<and> k < int (length aCols)) (iKeysA @ iNotKeysA)"
    by simp
  have "for_each
          (\<lambda>j. and_then (keys_match aCols bCols iKeysA iKeysB i j) (\<lambda>match.
                if match
                then and_then (matched_row aCols bCols (iKeysA @ iNotKeysA) iNotKeysB i j)
                       (\<lambda>row. Inr [row])
                else Inr []))
          (go_range nb)
     = Inr (map (\<lambda>j. if rows_equal aCols bCols iKeysA iKeysB i j
                       then [map (\<lambda>k. cell aCols k i) (iKeysA @ iNotKeysA)
                             @ map (\<lambda>k. cell bCols k j) iNotKeysB]
                       else [])
               (go_range nb))"
  proof (rule for_each_Inr)
    fix j assume "j \<in> set (go_range nb)"
    then have j: "0 \<le> j" "j < nb" by (simp_all add: set_go_range)
    show "and_then (keys_match aCols bCols iKeysA iKeysB i j) (\<lambda>match.
                if match
                then and_then (matched_row aCols bCols (iKeysA @ iNotKeysA) iNotKeysB i j)
                       (\<lambda>row. Inr [row])
                else Inr [])
        = Inr (if rows_equal aCols bCols iKeysA iKeysB i j
                       then [map (\<lambda>k. cell aCols k i) (iKeysA @ iNotKeysA)
                             @ map (\<lambda>k. cell bCols k j) iNotKeysB]
                       else [])"
      unfolding keys_match_in_range[OF a b ka kb i j]
        matched_row_in_range[OF a b kall nkb i j]
      by simp
  qed
  then show ?thesis by (simp add: matching_rows_def matches_of_def)
qed

lemma LeftJoin_rows_in_range:
  assumes a: "list_all (\<lambda>s. Err s = None \<and> GotaSeries_Len s = na) aCols"
    and b: "list_all (\<lambda>s. Err s = None \<and> GotaSeries_Len s = nb) bCols"
    and ka: "list_all (\<lambda>k. 0 \<le> k \<and> k < int (length aCols)) iKeysA"
    and kb: "list_all (\<lambda>k. 0 \<le> k \<and> k < int (length bCols)) iKeysB"
    and nka: "list_all (\<lambda>k. 0 \<le> k \<and> k < int (length aCols)) iNotKeysA"
    and nkb: "list_all (\<lambda>k. 0 \<le> k \<and> k < int (length bCols)) iNotKeysB"
  shows "LeftJoin_rows zero aCols bCols iKeysA iKeysB iNotKeysA iNotKeysB na nb
    = Inr (concat (map (\<lambda>i.
        if matches_of aCols bCols iKeysA iKeysB iNotKeysA iNotKeysB nb i = []
        then [map (\<lambda>k. cell aCols k i) (iKeysA @ iNotKeysA)
              @ map (\<lambda>_. missing_element zero) iNotKeysB]
        else matches_of aCols bCols iKeysA iKeysB iNotKeysA iNotKeysB nb i) (go_range na)))"
proof -
  from ka nka have kall: "list_all (\<lambda>k. 0 \<le> k \<and> k < int (length aCols)) (iKeysA @ iNotKeysA)"
    by simp
  have "for_each
          (\<lambda>i. and_then (matching_rows aCols bCols iKeysA iKeysB iNotKeysA iNotKeysB nb i)
                  (\<lambda>rows.
                     if rows = []
                     then and_then (left_only_row zero aCols (iKeysA @ iNotKeysA) iNotKeysB i)
                            (\<lambda>row. Inr [row])
                     else Inr rows))
          (go_range na)
    = Inr (map (\<lambda>i.
        if matches_of aCols bCols iKeysA iKeysB iNotKeysA iNotKeysB nb i = []
        then [map (\<lambda>k. cell aCols k i) (iKeysA @ iNotKeysA)
              @ map (\<lambda>_. missing_element zero) iNotKeysB]
        else matches_of aCols bCols iKeysA iKeysB iNotKeysA iNotKeysB nb i) (go_range na))"
  proof (rule for_each_Inr)
    fix i assume "i \<in> set (go_range na)"
    then have i: "0 \<le> i" "i < na" by (simp_all add: set_go_range)
    show "and_then (matching_rows aCols bCols iKeysA iKeysB iNotKeysA iNotKeysB nb i)
                  (\<lambda>rows.
                     if rows = []
                     then and_then (left_only_row zero aCols (iKeysA @ iNotKeysA) iNotKeysB i)
                            (\<lambda>row. Inr [row])
                     else Inr rows)
       = Inr (if matches_of aCols bCols iKeysA iKeysB iNotKeysA iNotKeysB nb i = []
        then [map (\<lambda>k. cell aCols k i) (iKeysA @ iNotKeysA)
              @ map (\<lambda>_. missing_element zero) iNotKeysB]
        else matches_of aCols bCols iKeysA iKeysB iNotKeysA iNotKeysB nb i)"
      unfolding matching_rows_in_range[OF a b ka kb nka nkb i]
        left_only_row_in_range[OF a kall i]
      by simp
  qed
  then show ?thesis by (simp add: LeftJoin_rows_def)
qed

lemma length_concat_ge:
  "\<forall>x\<in>set xs. 1 \<le> length (f x) \<Longrightarrow> length xs \<le> length (concat (map f xs))"
proof (induction xs)
  case Nil
  then show ?case by simp
next
  case (Cons x xs)
  then have "1 \<le> length (f x)" "length xs \<le> length (concat (map f xs))" by simp_all
  then show ?case by simp
qed

lemma length_concat_eq:
  "\<forall>x\<in>set xs. length (f x) = 1 \<Longrightarrow> length (concat (map f xs)) = length xs"
  by (induction xs) simp_all


lemma empty_columns_in_range:
  assumes "list_all (\<lambda>k. 0 \<le> k \<and> k < int (length cols)) ks"
  shows "empty_columns cols ks = Inr (map (\<lambda>k. GotaSeries_Empty (cols ! nat k)) ks)"
  unfolding empty_columns_def
proof (rule for_each_Inr)
  fix k assume "k \<in> set ks"
  with assms have "0 \<le> k" "k < int (length cols)" by (auto simp: list_all_iff)
  then show "and_then (slice_index cols k) (\<lambda>c. Inr (GotaSeries_Empty c))
      = Inr (GotaSeries_Empty (cols ! nat k))"
    by (simp add: slice_index_def)
qed

lemma filled_Empty: "filled 0 (map (\<lambda>k. GotaSeries_Empty (cols ! nat k)) ks)"
  by (simp add: filled_def list_all_iff GotaSeries_Empty_def NewSeries_def NewElements_def)

lemma filled_append: "filled m (xs @ ys) \<longleftrightarrow> filled m xs \<and> filled m ys"
  by (simp add: filled_def)

lemma append_row_filled:
  "filled m newCols \<Longrightarrow> length row = length newCols \<Longrightarrow>
   \<exists>newCols'. append_row newCols row = Inr newCols' \<and> length newCols' = length newCols
     \<and> filled (Suc m) newCols'"
proof (induction newCols row rule: append_row.induct)
  case (1 newCols)
  then show ?case by (simp add: filled_def)
next
  case (2 elem row)
  then show ?case by simp
next
  case (3 s newCols elem row)
  from "3.prems" have "filled m newCols" "length row = length newCols"
    by (simp_all add: filled_def)
  from "3.IH"[OF this] obtain rest where rest: "append_row newCols row = Inr rest"
    "length rest = length newCols" "filled (Suc m) rest" by blast
  from "3.prems" have "Err s = None" "length (elements s) = m" by (simp_all add: filled_def)
  then have "filled (Suc m) [Series1_Append s elem]"
    by (simp add: filled_def Series1_Append_def ElementsArray_AppendElements_def)
  with rest show ?case by (simp add: filled_def)
qed

lemma append_rows_filled:
  "filled m newCols \<Longrightarrow> \<forall>row\<in>set rows. length row = length newCols \<Longrightarrow>
   \<exists>newCols'. append_rows newCols rows = Inr newCols' \<and> length newCols' = length newCols
     \<and> filled (m + length rows) newCols'"
proof (induction rows arbitrary: m newCols)
  case Nil
  then show ?case by simp
next
  case (Cons row rows)
  from Cons.prems have "length row = length newCols" by simp
  from append_row_filled[OF Cons.prems(1) this] obtain c1 where c1:
    "append_row newCols row = Inr c1" "length c1 = length newCols" "filled (Suc m) c1" by blast
  from Cons.prems(2) c1(2) have "\<forall>row\<in>set rows. length row = length c1" by simp
  from Cons.IH[OF c1(3) this] obtain c2 where c2:
    "append_rows c1 rows = Inr c2" "length c2 = length c1" "filled (Suc m + length rows) c2"
    by blast
  with c1 show ?case by simp
qed

lemma checkColumnsDimensions_loop_equal:
  "list_all (\<lambda>s. Err s = None \<and> GotaSeries_Len s = n) se \<Longrightarrow> n0 = - 1 \<or> n0 = n \<Longrightarrow>
   checkColumnsDimensions_loop i se n0 = (if se = [] then n0 else n, None)"
proof (induction se arbitrary: i n0)
  case Nil
  then show ?case by simp
next
  case (Cons s se)
  from Cons.prems have s: "Err s = None" "GotaSeries_Len s = n"
    and se: "list_all (\<lambda>s. Err s = None \<and> GotaSeries_Len s = n) se" by simp_all
  from Cons.prems(2) s have n': "(if n0 = - 1 then GotaSeries_Len s else n0) = n" by auto
  have "checkColumnsDimensions_loop (i + 1) se n = (if se = [] then n else n, None)"
    by (rule Cons.IH[OF se]) simp
  with s n' show ?case by (simp add: Let_def)
qed

lemma New_filled:
  assumes "filled m newCols" "newCols \<noteq> []"
  shows "Err_df (New fixColnames newCols) = None \<and> nrows_df (New fixColnames newCols) = int m"
proof -
  from assms(1) have "list_all (\<lambda>s. Err s = None \<and> GotaSeries_Len s = int m)
      (map GotaSeries_Copy newCols)"
    by (simp add: filled_def list_all_iff GotaSeries_Copy_def GotaSeries_Len_def
        ElementsArray_Len_def)
  then have "checkColumnsDimensions_loop 0 (map GotaSeries_Copy newCols) (- 1)
      = (if map GotaSeries_Copy newCols = [] then - 1 else int m, None)"
    by (rule checkColumnsDimensions_loop_equal) simp
  with assms(2) have "checkColumnsDimensions (map GotaSeries_Copy newCols)
      = (int m, int (length newCols), None)"
    by (simp add: checkColumnsDimensions_def Let_def)
  with assms(2) show ?thesis by (simp add: New_def Let_def)
qed

lemma length_concat_filter:
  "length (concat (map (\<lambda>j. if P j then [g j] else []) xs)) = length (filter P xs)"
  by (induction xs) simp_all

lemma length_filter_le_1:
  "distinct xs \<Longrightarrow> \<forall>x\<in>set xs. \<forall>y\<in>set xs. P x \<and> P y \<longrightarrow> x = y \<Longrightarrow> length (filter P xs) \<le> 1"
proof (induction xs)
  case Nil
  then show ?case by simp
next
  case (Cons x xs)
  show ?case
  proof (cases "P x")
    case True
    have "\<not> P y" if "y \<in> set xs" for y
    proof
      assume "P y"
      with True that Cons.prems(2) have "x = y" by simp
      with that Cons.prems(1) show False by simp
    qed
    then have "filter P xs = []" by (simp add: filter_empty_conv)
    with True show ?thesis by simp
  next
    case False
    with Cons show ?thesis by simp
  qed
qed

lemma ElementValue_Eq_eq: "ElementValue_Eq a b \<longleftrightarrow> a = b"
  by (cases a, cases b) (auto simp: ElementValue_Eq_iff)

lemma rows_equal_keys:
  "rows_equal aCols bCols (map fa keys) (map fb keys) i j
   \<longleftrightarrow> map (\<lambda>key. cell aCols (fa key) i) keys = map (\<lambda>key. cell bCols (fb key) j) keys"
  by (induction keys) (auto simp: rows_equal_def ElementValue_Eq_eq)

lemma matches_of_le_1:
  assumes "no_duplicate_key_rows b keys"
  shows "length (matches_of aCols (columns_df b) (map fa keys)
      (map (GotaDataFrame_ColIndex b) keys) iNotKeysA iNotKeysB (nrows_df b) i) \<le> 1"
proof -
  let ?h = "\<lambda>j. map (\<lambda>key. cell (columns_df b) (GotaDataFrame_ColIndex b key) j) keys"
  from assms have "distinct (map ?h (go_range (nrows_df b)))"
    by (simp add: no_duplicate_key_rows_def key_rows_def cell_def)
  then have inj: "inj_on ?h (set (go_range (nrows_df b)))"
    by (simp add: distinct_map)
  have "length (filter (\<lambda>j. rows_equal aCols (columns_df b) (map fa keys)
      (map (GotaDataFrame_ColIndex b) keys) i j) (go_range (nrows_df b))) \<le> 1"
  proof (rule length_filter_le_1[OF distinct_go_range], intro ballI impI)
    fix x y assume xy: "x \<in> set (go_range (nrows_df b))" "y \<in> set (go_range (nrows_df b))"
      and "rows_equal aCols (columns_df b) (map fa keys)
             (map (GotaDataFrame_ColIndex b) keys) i x
         \<and> rows_equal aCols (columns_df b) (map fa keys)
             (map (GotaDataFrame_ColIndex b) keys) i y"
    then have "?h x = ?h y" unfolding rows_equal_keys by (elim conjE) (rule trans[OF sym])
    with inj xy show "x = y" by (simp add: inj_on_def)
  qed
  then show ?thesis by (simp add: matches_of_def length_concat_filter)
qed


lemma not_keys_in_range:
  "n = int (length cols) \<Longrightarrow> list_all (\<lambda>k. 0 \<le> k \<and> k < int (length cols)) (not_keys n iKeys)"
  by (simp add: not_keys_def list_all_iff set_go_range)

text \<open>
  C7, as stated: the left frame has no duplicate rows per key, and the left join has
  more rows than the left frame, because two rows of the right frame match its row.
\<close>

theorem C7_LeftJoin_duplicates_on_the_right:
  "no_duplicate_key_rows (New (\<lambda>colnames. colnames) [NewSeries ''id'' [1 :: int]]) [''id'']
   \<and> GotaDataFrame_NRow (New (\<lambda>colnames. colnames) [NewSeries ''id'' [1 :: int]]) = 1
   \<and> map_sum id GotaDataFrame_NRow
       (GotaDataFrame_LeftJoin (\<lambda>colnames. colnames) 0
          (New (\<lambda>colnames. colnames) [NewSeries ''id'' [1 :: int]])
          (New (\<lambda>colnames. colnames) [NewSeries ''id'' [1, 1]]) [''id''])
     = Inr 2"
  by (simp add: join_eval upt_rec no_duplicate_key_rows_def key_rows_def)

text \<open>
  C7, amended. For well-formed frames and a non-empty list of keys present in both,
  \<open>LeftJoin\<close> does not panic, returns a frame without error with at least as many
  rows as the left frame, and with exactly as many when the right frame has no
  duplicate rows per key.
\<close>

theorem C7_LeftJoin_row_count:
  assumes wfa: "well_formed df" and wfb: "well_formed b" and keys: "keys \<noteq> []"
    and present: "list_all (\<lambda>key. key \<in> set (GotaDataFrame_Names df)
                                  \<and> key \<in> set (GotaDataFrame_Names b)) keys"
  shows "\<exists>r. GotaDataFrame_LeftJoin fixColnames zero df b keys = Inr r \<and> Err_df r = None
           \<and> GotaDataFrame_NRow df \<le> GotaDataFrame_NRow r
           \<and> (no_duplicate_key_rows b keys \<longrightarrow> GotaDataFrame_NRow r = GotaDataFrame_NRow df)"
proof -
  define aCols where "aCols = columns_df df"
  define bCols where "bCols = columns_df b"
  define na where "na = nrows_df df"
  define nb where "nb = nrows_df b"
  define iKeysA where "iKeysA = map (GotaDataFrame_ColIndex df) keys"
  define iKeysB where "iKeysB = map (GotaDataFrame_ColIndex b) keys"
  define iNotKeysA where "iNotKeysA = not_keys (ncols_df df) iKeysA"
  define iNotKeysB where "iNotKeysB = not_keys (ncols_df b) iKeysB"
  define M where "M = matches_of aCols bCols iKeysA iKeysB iNotKeysA iNotKeysB nb"
  define F where "F = (\<lambda>i. if M i = []
        then [map (\<lambda>k. cell aCols k i) (iKeysA @ iNotKeysA)
              @ map (\<lambda>_. missing_element zero) iNotKeysB]
        else M i)"
  define rows where "rows = concat (map F (go_range na))"
  define newCols where "newCols = map (\<lambda>k. GotaSeries_Empty (aCols ! nat k)) (iKeysA @ iNotKeysA)
      @ map (\<lambda>k. GotaSeries_Empty (bCols ! nat k)) iNotKeysB"
  have a: "list_all (\<lambda>s. Err s = None \<and> GotaSeries_Len s = na) aCols"
    and b: "list_all (\<lambda>s. Err s = None \<and> GotaSeries_Len s = nb) bCols"
    using wfa wfb by (simp_all add: well_formed_def aCols_def bCols_def na_def nb_def)
  have ka: "list_all (\<lambda>k. 0 \<le> k \<and> k < int (length aCols)) iKeysA"
    and kb: "list_all (\<lambda>k. 0 \<le> k \<and> k < int (length bCols)) iKeysB"
    using present ColIndex_found[of _ df] ColIndex_found[of _ b]
    by (simp_all add: list_all_iff iKeysA_def iKeysB_def aCols_def bCols_def)
  have nka: "list_all (\<lambda>k. 0 \<le> k \<and> k < int (length aCols)) iNotKeysA"
    unfolding iNotKeysA_def
    by (rule not_keys_in_range) (use wfa in \<open>simp add: well_formed_def aCols_def\<close>)
  have nkb: "list_all (\<lambda>k. 0 \<le> k \<and> k < int (length bCols)) iNotKeysB"
    unfolding iNotKeysB_def
    by (rule not_keys_in_range) (use wfb in \<open>simp add: well_formed_def bCols_def\<close>)
  have jk: "join_keys df b keys = (iKeysA, iKeysB, [])"
    unfolding iKeysA_def iKeysB_def by (rule join_keys_found[OF present])
  have nc: "join_newCols aCols bCols iKeysA iNotKeysA iNotKeysB = Inr newCols"
    using ka nka nkb by (simp add: join_newCols_def empty_columns_in_range newCols_def)
  have rs: "LeftJoin_rows zero aCols bCols iKeysA iKeysB iNotKeysA iNotKeysB na nb = Inr rows"
    unfolding rows_def F_def M_def by (rule LeftJoin_rows_in_range[OF a b ka kb nka nkb])
  have f0: "filled 0 newCols"
    unfolding newCols_def filled_append by (intro conjI filled_Empty)
  have len_newCols: "length newCols = length iKeysA + length iNotKeysA + length iNotKeysB"
    by (simp add: newCols_def)
  have lenM: "length row = length newCols" if "row \<in> set (M i)" for row i
    using that unfolding M_def matches_of_def len_newCols by (auto split: if_splits)
  have "length row = length newCols" if "row \<in> set rows" for row
  proof -
    from that obtain i where "row \<in> set (F i)" by (auto simp: rows_def)
    then show ?thesis using lenM[of row i] len_newCols
      by (cases "M i = []") (auto simp: F_def)
  qed
  then have "\<forall>row\<in>set rows. length row = length newCols" by blast
  from append_rows_filled[OF f0 this] obtain newCols' where app:
    "append_rows newCols rows = Inr newCols'" "length newCols' = length newCols"
    "filled (0 + length rows) newCols'" by blast
  from keys have "newCols \<noteq> []" by (simp add: newCols_def iKeysA_def)
  with app(2) have ne: "newCols' \<noteq> []" by auto
  from app(3) have fl: "filled (length rows) newCols'" by simp
  note new = New_filled[OF fl ne, of fixColnames]
  have run: "GotaDataFrame_LeftJoin fixColnames zero df b keys = Inr (New fixColnames newCols')"
    using keys jk nc rs app(1)
    by (simp add: GotaDataFrame_LeftJoin_def Let_def GotaDataFrame_Columns_def
        GotaDataFrame_NCol_def GotaDataFrame_NRow_def aCols_def[symmetric] bCols_def[symmetric]
        na_def[symmetric] nb_def[symmetric] iNotKeysA_def[symmetric] iNotKeysB_def[symmetric])
  have na0: "0 \<le> na"
  proof -
    from keys ka have "aCols \<noteq> []" by (cases keys) (auto simp: iKeysA_def)
    then obtain s where "s \<in> set aCols" by (cases aCols) auto
    with a have "GotaSeries_Len s = na" by (simp add: list_all_iff)
    then show ?thesis by (simp add: GotaSeries_Len_def ElementsArray_Len_def)
  qed
  have "\<forall>i\<in>set (go_range na). 1 \<le> length (F i)"
    by (auto simp: F_def Suc_le_eq)
  then have "length (go_range na) \<le> length rows"
    unfolding rows_def by (rule length_concat_ge)
  with na0 have ge: "na \<le> int (length rows)" by (simp add: length_go_range)
  have eq: "int (length rows) = na" if nodup: "no_duplicate_key_rows b keys"
  proof -
    have "length (M i) \<le> 1" for i
      unfolding M_def bCols_def iKeysA_def iKeysB_def nb_def
      by (rule matches_of_le_1[OF nodup])
    then have "length (F i) = 1" for i
      using le_Suc_eq[of "length (M i)" 0] by (auto simp: F_def)
    then have "\<forall>i\<in>set (go_range na). length (F i) = 1" by simp
    then have "length rows = length (go_range na)"
      unfolding rows_def by (rule length_concat_eq)
    with na0 show ?thesis by (simp add: length_go_range)
  qed
  from run new ge eq show ?thesis
    by (simp add: GotaDataFrame_NRow_def na_def)
qed

theorem C7_LeftJoin_row_count_witness:
  "well_formed (New (\<lambda>colnames. colnames) [NewSeries ''id'' [1, 2 :: int], NewSeries ''x'' [10, 20]])
   \<and> well_formed (New (\<lambda>colnames. colnames) [NewSeries ''id'' [2, 3 :: int], NewSeries ''y'' [5, 6]])
   \<and> no_duplicate_key_rows
       (New (\<lambda>colnames. colnames) [NewSeries ''id'' [2, 3 :: int], NewSeries ''y'' [5, 6]]) [''id'']
   \<and> (\<exists>r. GotaDataFrame_LeftJoin (\<lambda>colnames. colnames) 0
             (New (\<lambda>colnames. colnames) [NewSeries ''id'' [1, 2 :: int], NewSeries ''x'' [10, 20]])
             (New (\<lambda>colnames. colnames) [NewSeries ''id'' [2, 3 :: int], NewSeries ''y'' [5, 6]])
             [''id''] = Inr r
          \<and> Err_df r = None \<and> GotaDataFrame_NRow r = 2)"
proof -
  let ?A = "New (\<lambda>colnames. colnames) [NewSeries ''id'' [1, 2 :: int], NewSeries ''x'' [10, 20]]"
  let ?B = "New (\<lambda>colnames. colnames) [NewSeries ''id'' [2, 3 :: int], NewSeries ''y'' [5, 6]]"
  have wfa: "well_formed ?A" and wfb: "well_formed ?B"
    by (simp_all add: well_formed_def join_eval)
  have nd: "no_duplicate_key_rows ?B [''id'']"
    by (simp add: no_duplicate_key_rows_def key_rows_def join_eval upt_rec)
  have pr: "list_all (\<lambda>key. key \<in> set (GotaDataFrame_Names ?A)
                           \<and> key \<in> set (GotaDataFrame_Names ?B)) [''id'']"
    by (simp add: join_eval)
  have na: "GotaDataFrame_NRow ?A = 2"
    by (simp add: join_eval)
  from C7_LeftJoin_row_count[OF wfa wfb _ pr, of "\<lambda>colnames. colnames" 0] nd na wfa wfb
  show ?thesis by auto
qed

section \<open>Type inference\<close>

lemma findType_loop_flags:
  "findType_loop Atoi ParseFloat arr (hasFloats, hasInts, hasBools, hasStrings) =
     (let classes = map (spec_classify Atoi ParseFloat)
                      (filter (\<lambda>token. \<not> spec_ignored token) arr)
      in (hasFloats \<or> series_Float \<in> set classes, hasInts \<or> series_Int \<in> set classes,
          hasBools \<or> series_Bool \<in> set classes, hasStrings \<or> series_String \<in> set classes))"
proof (induction arr arbitrary: hasFloats hasInts hasBools hasStrings)
  case Nil
  then show ?case by simp
next
  case (Cons str arr)
  show ?case
    by (simp add: Cons.IH Let_def spec_ignored_def spec_classify_def)
qed

lemma findType_refines: "findType Atoi ParseFloat arr = spec_inferred_type Atoi ParseFloat arr"
  by (simp add: findType_def findType_loop_flags spec_inferred_type_def Let_def)

text \<open>
  C5. \<open>findType\<close> ignores empty and \<open>NaN\<close> tokens, classifies every other token
  as integer, else float, else Boolean, else text, and returns the type by the priority
  text, Boolean, float, integer, or an error when no token is left: it equals the
  specification's function, whatever the two parsers are. With parsers that read
  1, 2, 3 as integers, 2.5 as a float only, and true, false and a as neither, the
  examples of the specification come out as stated.
\<close>

theorem C5_findType_priority:
  "findType Atoi ParseFloat arr = spec_inferred_type Atoi ParseFloat arr
   \<and> findType Atoi ParseFloat [''NaN'', ''''] = (series_String, Some CouldntDetectType)
   \<and> (Atoi ''1'' \<noteq> None \<and> Atoi ''2'' \<noteq> None \<and> Atoi ''3'' \<noteq> None
      \<and> Atoi ''2.5'' = None \<and> ParseFloat ''2.5'' \<noteq> None
      \<and> Atoi ''true'' = None \<and> ParseFloat ''true'' = None
      \<and> Atoi ''false'' = None \<and> ParseFloat ''false'' = None
      \<and> Atoi ''a'' = None \<and> ParseFloat ''a'' = None
      \<longrightarrow> findType Atoi ParseFloat [''1'', ''2'', ''3''] = (series_Int, None)
        \<and> findType Atoi ParseFloat [''1'', ''2.5''] = (series_Float, None)
        \<and> findType Atoi ParseFloat [''true'', ''false''] = (series_Bool, None)
        \<and> findType Atoi ParseFloat [''1'', ''a''] = (series_String, None))"
proof (intro conjI impI)
  show "findType Atoi ParseFloat arr = spec_inferred_type Atoi ParseFloat arr"
    by (rule findType_refines)
  show "findType Atoi ParseFloat [''NaN'', ''''] = (series_String, Some CouldntDetectType)"
    by (simp add: findType_def)
next
  assume h: "Atoi ''1'' \<noteq> None \<and> Atoi ''2'' \<noteq> None \<and> Atoi ''3'' \<noteq> None
      \<and> Atoi ''2.5'' = None \<and> ParseFloat ''2.5'' \<noteq> None
      \<and> Atoi ''true'' = None \<and> ParseFloat ''true'' = None
      \<and> Atoi ''false'' = None \<and> ParseFloat ''false'' = None
      \<and> Atoi ''a'' = None \<and> ParseFloat ''a'' = None"
  from h show "findType Atoi ParseFloat [''1'', ''2'', ''3''] = (series_Int, None)"
    by (simp add: findType_def)
  from h show "findType Atoi ParseFloat [''1'', ''2.5''] = (series_Float, None)"
    by (simp add: findType_def)
  from h show "findType Atoi ParseFloat [''true'', ''false''] = (series_Bool, None)"
    by (simp add: findType_def)
  from h show "findType Atoi ParseFloat [''1'', ''a''] = (series_String, None)"
    by (simp add: findType_def)
qed

theorem C5_findType_priority_witness:
  "findType table_Atoi table_ParseFloat [''1'', ''2'', ''3''] = (series_Int, None)
   \<and> findType table_Atoi table_ParseFloat [''1'', ''2.5''] = (series_Float, None)
   \<and> findType table_Atoi table_ParseFloat [''true'', ''false''] = (series_Bool, None)
   \<and> findType table_Atoi table_ParseFloat [''1'', ''a''] = (series_String, None)
   \<and> findType table_Atoi table_ParseFloat [''NaN'', ''''] = (series_String, Some CouldntDetectType)"
  using C5_findType_priority[of table_Atoi table_ParseFloat "[]"]
  by (simp add: table_Atoi_def table_ParseFloat_def)

end
